theory Spec2Isabelle
  imports Main "HOL-Library.AList" "HOL-Library.Multiset"
begin

section \<open>Data model (app/models/post.py)\<close>

text \<open>
  Python exceptions are values. Every method of the service is a function from the state
  before the call to the returned value and the state after it; a \<open>try\<close> block is a
  function that returns either the exception it raised or its value, together with the
  state at that moment, and the \<open>except Exception\<close> handler is the case split on it.
\<close>

datatype error = ValueError | AttributeError | KeyError | JobLookupError | LibraryError

text \<open>The enumeration \<open>PostStatus\<close> has exactly four members.\<close>

datatype PostStatus = PENDING | SCHEDULED | PUBLISHED | FAILED

text \<open>
  Attribute access on the enumeration class, \<open>PostStatus.NAME\<close>: a name that is not a
  member raises \<open>AttributeError\<close>.
\<close>

definition PostStatus_attr :: "string \<Rightarrow> error + PostStatus" where
  "PostStatus_attr name =
     (if name = ''PENDING'' then Inr PENDING
      else if name = ''SCHEDULED'' then Inr SCHEDULED
      else if name = ''PUBLISHED'' then Inr PUBLISHED
      else if name = ''FAILED'' then Inr FAILED
      else Inl AttributeError)"

text \<open>
  Instants (\<open>datetime\<close>) are integers on one time line. A \<open>string\<close> is a list of
  characters, one per Python character, so \<open>length\<close> is Python's \<open>len\<close>.
\<close>

record XPost =
  id :: "string option"
  content :: string
  scheduled_date :: int
  timezone :: string
  status :: PostStatus
  thread_id :: "string option"
  thread_position :: "int option"
  thread_title :: "string option"
  media_urls :: "string list option"
  x_post_id :: "string option"
  created_at :: int
  updated_at :: int

record XThread =
  id :: string
  title :: "string option"
  posts :: "XPost list"
  scheduled_date :: int
  timezone :: string
  status :: PostStatus
  created_at :: int
  updated_at :: int

text \<open>The validator of the field \<open>content\<close>, and the construction of a post, which runs it.\<close>

definition validate_content_length :: "string \<Rightarrow> error + string" where
  "validate_content_length v = (if length v > 280 then Inl ValueError else Inr v)"

definition XPost_init :: "XPost \<Rightarrow> error + XPost" where
  "XPost_init raw =
     (case validate_content_length (XPost.content raw) of
        Inl e \<Rightarrow> Inl e
      | Inr v \<Rightarrow> Inr (raw\<lparr>XPost.content := v\<rparr>))"

section \<open>The trigger store (the scheduling library, seen from the service)\<close>

text \<open>
  The service books one date job per entity: the callback, the instant and the argument,
  under the job identifier \<open>post_<id>\<close> or \<open>thread_<id>\<close>. The library's job store is a
  list of jobs with their identifiers.
\<close>

datatype job_func = PublishPostJob | PublishThreadJob

record job =
  func :: job_func
  run_date :: int
  args :: string

type_synonym jobstore = "(string \<times> job) list"

text \<open>
  \<open>add_job(..., id=job_id, replace_existing=True)\<close>: a job with the same identifier is
  replaced where it stands, a new one is appended. The library is not part of the
  repository; whether it raises while booking is the parameter \<open>fault\<close>.
\<close>

definition add_job :: "error option \<Rightarrow> jobstore \<Rightarrow> string \<Rightarrow> job \<Rightarrow> error + jobstore" where
  "add_job fault js job_id j =
     (case fault of
        Some e \<Rightarrow> Inl e
      | None \<Rightarrow> Inr (AList.update job_id j js))"

text \<open>\<open>remove_job(job_id)\<close> raises \<open>JobLookupError\<close> when no such job is pending.\<close>

definition remove_job :: "jobstore \<Rightarrow> string \<Rightarrow> error + jobstore" where
  "remove_job js job_id =
     (case map_of js job_id of
        None \<Rightarrow> Inl JobLookupError
      | Some j \<Rightarrow> Inr (AList.delete job_id js))"

text \<open>The jobs that are due at an instant: those whose fire instant has been reached.\<close>

definition due_jobs :: "int \<Rightarrow> jobstore \<Rightarrow> jobstore" where
  "due_jobs now js = filter (\<lambda>(job_id, j). run_date j \<le> now) js"

section \<open>The publisher (app/services/x\_api.py)\<close>

text \<open>
  One outbound unit: the text, the media references and the tweet replied to. The remote
  service answers a unit by raising (\<open>Inl\<close>), by a response without an identifier
  (\<open>Unexpected\<close>) or by a response with the identifier of the new tweet. It is a parameter:
  a function of the units sent so far and of the unit sent now. The units sent are logged
  in the order of the calls.
\<close>

record request =
  tweet_text :: string
  media :: "string list option"
  in_reply_to_tweet_id :: "string option"

datatype response = Unexpected | Tweet string

type_synonym publisher = "request list \<Rightarrow> request \<Rightarrow> error + response"

text \<open>Python's truth value of a string: the empty string is false.\<close>

definition truthy :: "string \<Rightarrow> bool" where
  "truthy s = (s \<noteq> [])"

text \<open>\<open>XAPIService.publish_post\<close>: any exception is caught and turned into \<open>None\<close>.\<close>

definition publish_post :: "publisher \<Rightarrow> XPost \<Rightarrow> request list \<Rightarrow> string option \<times> request list" where
  "publish_post pub post calls =
     (let req = \<lparr>tweet_text = XPost.content post, media = media_urls post,
                 in_reply_to_tweet_id = None\<rparr>
      in case pub calls req of
           Inr (Tweet post_id) \<Rightarrow> (Some post_id, calls @ [req])
         | Inr Unexpected \<Rightarrow> (None, calls @ [req])
         | Inl e \<Rightarrow> (None, calls @ [req]))"

text \<open>The sort key of a member: \<open>p.thread_position or 0\<close>.\<close>

definition position_key :: "XPost \<Rightarrow> int" where
  "position_key p = (case thread_position p of None \<Rightarrow> 0 | Some n \<Rightarrow> n)"

text \<open>
  \<open>sorted(thread.posts, key=...)\<close> builds a new list of references to the same member
  objects, and the loop mutates the members through it: \<open>thread.posts\<close> keeps its order
  and sees the mutations. So the sorted list is the list of the indices into
  \<open>thread.posts\<close>, sorted stably by the key of the member at each index.
\<close>

definition sorted_members :: "XPost list \<Rightarrow> nat list" where
  "sorted_members ps = sort_key (\<lambda>i. position_key (ps ! i)) [0..<length ps]"

text \<open>
  The loop over \<open>posts[1:]\<close>: each remaining member is sent as a reply to the previous
  tweet; a response without identifier, or an exception, returns \<open>False\<close> at once.
\<close>

fun publish_replies ::
  "publisher \<Rightarrow> XPost list \<Rightarrow> nat list \<Rightarrow> string \<Rightarrow> request list \<Rightarrow> bool \<times> XPost list \<times> request list"
where
  "publish_replies pub ps [] prev_post_id calls = (True, ps, calls)"
| "publish_replies pub ps (i # rest) prev_post_id calls =
     (let req = \<lparr>tweet_text = XPost.content (ps ! i), media = media_urls (ps ! i),
                 in_reply_to_tweet_id = Some prev_post_id\<rparr>
      in case pub calls req of
           Inr (Tweet post_id) \<Rightarrow>
             publish_replies pub
               (ps[i := (ps ! i)\<lparr>x_post_id := Some post_id, XPost.status := PUBLISHED\<rparr>])
               rest post_id (calls @ [req])
         | Inr Unexpected \<Rightarrow> (False, ps, calls @ [req])
         | Inl e \<Rightarrow> (False, ps, calls @ [req]))"

text \<open>\<open>XAPIService.publish_thread\<close>.\<close>

definition publish_thread :: "publisher \<Rightarrow> XThread \<Rightarrow> request list \<Rightarrow> bool \<times> XThread \<times> request list" where
  "publish_thread pub thread calls =
     (case sorted_members (XThread.posts thread) of
        [] \<Rightarrow> (False, thread, calls)
      | first # rest \<Rightarrow>
          (case publish_post pub (XThread.posts thread ! first) calls of
             (None, calls1) \<Rightarrow> (False, thread, calls1)
           | (Some first_post_id, calls1) \<Rightarrow>
               if \<not> truthy first_post_id then (False, thread, calls1)
               else
                 (case publish_replies pub
                         ((XThread.posts thread)[first :=
                            (XThread.posts thread ! first)
                              \<lparr>x_post_id := Some first_post_id, XPost.status := PUBLISHED\<rparr>])
                         rest first_post_id calls1 of
                    (ok, ps, calls2) \<Rightarrow> (ok, thread\<lparr>XThread.posts := ps\<rparr>, calls2))))"

section \<open>The scheduler service (app/services/scheduler.py)\<close>

record SchedulerService =
  scheduler :: jobstore
  posts :: "string \<rightharpoonup> XPost"
  threads :: "string \<rightharpoonup> XThread"
  monthly_post_count :: int
  max_monthly_posts :: int

text \<open>\<open>__init__\<close>: nothing registered, nothing counted; the ceiling comes from the settings.\<close>

definition init :: "int \<Rightarrow> SchedulerService" where
  "init MAX_MONTHLY_POSTS =
     \<lparr>scheduler = [], posts = Map.empty, threads = Map.empty,
      monthly_post_count = 0, max_monthly_posts = MAX_MONTHLY_POSTS\<rparr>"

subsection \<open>Admission\<close>

text \<open>
  The \<open>try\<close> block of \<open>schedule_post\<close>. \<open>uuid\<close> is the string that \<open>uuid.uuid4()\<close>
  yields when the post has no identifier. The registry holds the post object itself, so
  the later assignment of the status is seen through the registry.
\<close>

definition schedule_post_try ::
  "error option \<Rightarrow> string \<Rightarrow> XPost \<Rightarrow> SchedulerService \<Rightarrow> (error + bool) \<times> SchedulerService"
where
  "schedule_post_try fault uuid post s =
     (let post_id = (case XPost.id post of
                       None \<Rightarrow> uuid
                     | Some i \<Rightarrow> if truthy i then i else uuid);
          post1 = post\<lparr>XPost.id := Some post_id\<rparr>;
          s1 = s\<lparr>posts := (posts s)(post_id \<mapsto> post1)\<rparr>
      in case add_job fault (scheduler s1) (''post_'' @ post_id)
                \<lparr>func = PublishPostJob, run_date = XPost.scheduled_date post1, args = post_id\<rparr> of
           Inl e \<Rightarrow> (Inl e, s1)
         | Inr js \<Rightarrow>
             (Inr True,
              s1\<lparr>scheduler := js,
                 posts := (posts s1)(post_id \<mapsto> post1\<lparr>XPost.status := SCHEDULED\<rparr>),
                 monthly_post_count := monthly_post_count s1 + 1\<rparr>))"

definition schedule_post ::
  "error option \<Rightarrow> string \<Rightarrow> XPost \<Rightarrow> SchedulerService \<Rightarrow> bool \<times> SchedulerService"
where
  "schedule_post fault uuid post s =
     (if monthly_post_count s \<ge> max_monthly_posts s then (False, s)
      else (case schedule_post_try fault uuid post s of
              (Inl e, s') \<Rightarrow> (False, s')
            | (Inr b, s') \<Rightarrow> (b, s')))"

definition schedule_thread_try ::
  "error option \<Rightarrow> XThread \<Rightarrow> SchedulerService \<Rightarrow> (error + bool) \<times> SchedulerService"
where
  "schedule_thread_try fault thread s =
     (let s1 = s\<lparr>threads := (threads s)(XThread.id thread \<mapsto> thread)\<rparr>
      in case add_job fault (scheduler s1) (''thread_'' @ XThread.id thread)
                \<lparr>func = PublishThreadJob, run_date = XThread.scheduled_date thread,
                 args = XThread.id thread\<rparr> of
           Inl e \<Rightarrow> (Inl e, s1)
         | Inr js \<Rightarrow>
             (Inr True,
              s1\<lparr>scheduler := js,
                 threads := (threads s1)(XThread.id thread \<mapsto> thread\<lparr>XThread.status := SCHEDULED\<rparr>),
                 monthly_post_count := monthly_post_count s1 + int (length (XThread.posts thread))\<rparr>))"

definition schedule_thread ::
  "error option \<Rightarrow> XThread \<Rightarrow> SchedulerService \<Rightarrow> bool \<times> SchedulerService"
where
  "schedule_thread fault thread s =
     (if XThread.posts thread = [] then (False, s)
      else if monthly_post_count s + int (length (XThread.posts thread)) > max_monthly_posts s
      then (False, s)
      else (case schedule_thread_try fault thread s of
              (Inl e, s') \<Rightarrow> (False, s')
            | (Inr b, s') \<Rightarrow> (b, s')))"

subsection \<open>Cancellation\<close>

text \<open>
  The \<open>try\<close> block of \<open>cancel_post\<close>: the job is removed first, then the status is
  assigned \<open>PostStatus.CANCELLED\<close>, then the counter is decremented. The state returned
  with an exception is the state reached when it was raised.
\<close>

definition cancel_post_try :: "string \<Rightarrow> SchedulerService \<Rightarrow> (error + bool) \<times> SchedulerService" where
  "cancel_post_try post_id s =
     (case remove_job (scheduler s) (''post_'' @ post_id) of
        Inl e \<Rightarrow> (Inl e, s)
      | Inr js \<Rightarrow>
          (let s1 = s\<lparr>scheduler := js\<rparr>
           in case posts s1 post_id of
                None \<Rightarrow> (Inl KeyError, s1)
              | Some post \<Rightarrow>
                  (case PostStatus_attr ''CANCELLED'' of
                     Inl e \<Rightarrow> (Inl e, s1)
                   | Inr st \<Rightarrow>
                       (Inr True,
                        s1\<lparr>posts := (posts s1)(post_id \<mapsto> post\<lparr>XPost.status := st\<rparr>),
                           monthly_post_count := monthly_post_count s1 - 1\<rparr>))))"

definition cancel_post :: "string \<Rightarrow> SchedulerService \<Rightarrow> bool \<times> SchedulerService" where
  "cancel_post post_id s =
     (if posts s post_id = None then (False, s)
      else (case cancel_post_try post_id s of
              (Inl e, s') \<Rightarrow> (False, s')
            | (Inr b, s') \<Rightarrow> (b, s')))"

definition cancel_thread_try :: "string \<Rightarrow> SchedulerService \<Rightarrow> (error + bool) \<times> SchedulerService" where
  "cancel_thread_try tid s =
     (case remove_job (scheduler s) (''thread_'' @ tid) of
        Inl e \<Rightarrow> (Inl e, s)
      | Inr js \<Rightarrow>
          (let s1 = s\<lparr>scheduler := js\<rparr>
           in case threads s1 tid of
                None \<Rightarrow> (Inl KeyError, s1)
              | Some thread \<Rightarrow>
                  (case PostStatus_attr ''CANCELLED'' of
                     Inl e \<Rightarrow> (Inl e, s1)
                   | Inr st \<Rightarrow>
                       (Inr True,
                        s1\<lparr>threads := (threads s1)(tid \<mapsto> thread\<lparr>XThread.status := st\<rparr>),
                           monthly_post_count :=
                             monthly_post_count s1 - int (length (XThread.posts thread))\<rparr>))))"

definition cancel_thread :: "string \<Rightarrow> SchedulerService \<Rightarrow> bool \<times> SchedulerService" where
  "cancel_thread tid s =
     (if threads s tid = None then (False, s)
      else (case cancel_thread_try tid s of
              (Inl e, s') \<Rightarrow> (False, s')
            | (Inr b, s') \<Rightarrow> (b, s')))"

subsection \<open>The firing callbacks\<close>

text \<open>
  \<open>_publish_post_job\<close>: its \<open>try\<close> block, then the method with the handler, which marks
  the post as failed when it is registered. The post read from the registry is the
  registered object, so the assignments to it are assignments to the registry entry.
\<close>

definition publish_post_job_try ::
  "publisher \<Rightarrow> string \<Rightarrow> SchedulerService \<times> request list \<Rightarrow>
     (error + unit) \<times> SchedulerService \<times> request list"
where
  "publish_post_job_try pub post_id st =
     (case st of (s, calls) \<Rightarrow>
        (case posts s post_id of
           None \<Rightarrow> (Inr (), s, calls)
         | Some post \<Rightarrow>
             (case publish_post pub post calls of
                (Some x, calls1) \<Rightarrow>
                  if truthy x
                  then (Inr (),
                        s\<lparr>posts := (posts s)(post_id \<mapsto>
                             post\<lparr>x_post_id := Some x, XPost.status := PUBLISHED\<rparr>)\<rparr>,
                        calls1)
                  else (Inr (),
                        s\<lparr>posts := (posts s)(post_id \<mapsto> post\<lparr>XPost.status := FAILED\<rparr>)\<rparr>,
                        calls1)
              | (None, calls1) \<Rightarrow>
                  (Inr (),
                   s\<lparr>posts := (posts s)(post_id \<mapsto> post\<lparr>XPost.status := FAILED\<rparr>)\<rparr>,
                   calls1))))"

definition publish_post_job ::
  "publisher \<Rightarrow> string \<Rightarrow> SchedulerService \<times> request list \<Rightarrow>
     (error + unit) \<times> SchedulerService \<times> request list"
where
  "publish_post_job pub post_id st =
     (case publish_post_job_try pub post_id st of
        (Inr u, s', calls') \<Rightarrow> (Inr u, s', calls')
      | (Inl e, s', calls') \<Rightarrow>
          (case posts s' post_id of
             None \<Rightarrow> (Inr (), s', calls')
           | Some p \<Rightarrow>
               (Inr (), s'\<lparr>posts := (posts s')(post_id \<mapsto> p\<lparr>XPost.status := FAILED\<rparr>)\<rparr>,
                calls')))"

text \<open>\<open>_publish_thread_job\<close>, in the same way.\<close>

definition publish_thread_job_try ::
  "publisher \<Rightarrow> string \<Rightarrow> SchedulerService \<times> request list \<Rightarrow>
     (error + unit) \<times> SchedulerService \<times> request list"
where
  "publish_thread_job_try pub tid st =
     (case st of (s, calls) \<Rightarrow>
        (case threads s tid of
           None \<Rightarrow> (Inr (), s, calls)
         | Some thread \<Rightarrow>
             (case publish_thread pub thread calls of
                (success, thread1, calls1) \<Rightarrow>
                  (Inr (),
                   s\<lparr>threads := (threads s)(tid \<mapsto>
                        thread1\<lparr>XThread.status := (if success then PUBLISHED else FAILED)\<rparr>)\<rparr>,
                   calls1))))"

definition publish_thread_job ::
  "publisher \<Rightarrow> string \<Rightarrow> SchedulerService \<times> request list \<Rightarrow>
     (error + unit) \<times> SchedulerService \<times> request list"
where
  "publish_thread_job pub tid st =
     (case publish_thread_job_try pub tid st of
        (Inr u, s', calls') \<Rightarrow> (Inr u, s', calls')
      | (Inl e, s', calls') \<Rightarrow>
          (case threads s' tid of
             None \<Rightarrow> (Inr (), s', calls')
           | Some t \<Rightarrow>
               (Inr (), s'\<lparr>threads := (threads s')(tid \<mapsto> t\<lparr>XThread.status := FAILED\<rparr>)\<rparr>,
                calls')))"

subsection \<open>Firing\<close>

text \<open>
  The library's dispatcher, as the service sees it: a date job that fires leaves the store
  and its callback is invoked once with its argument. Firing a job that is not pending
  does nothing.
\<close>

definition run_job ::
  "publisher \<Rightarrow> string \<Rightarrow> SchedulerService \<times> request list \<Rightarrow>
     (error + unit) \<times> SchedulerService \<times> request list"
where
  "run_job pub job_id st =
     (case st of (s, calls) \<Rightarrow>
        (case map_of (scheduler s) job_id of
           None \<Rightarrow> (Inr (), s, calls)
         | Some j \<Rightarrow>
             (let s1 = s\<lparr>scheduler := AList.delete job_id (scheduler s)\<rparr>
              in case func j of
                   PublishPostJob \<Rightarrow> publish_post_job pub (args j) (s1, calls)
                 | PublishThreadJob \<Rightarrow> publish_thread_job pub (args j) (s1, calls))))"

subsection \<open>Runs of the service\<close>

text \<open>
  The operations that change the state of a service, and the state after a sequence of them,
  started from \<open>init\<close>. An exception that escaped a callback would be lost with the worker
  that ran it; the state it left is kept.
\<close>

datatype operation =
    SchedulePost "error option" string XPost
  | ScheduleThread "error option" XThread
  | CancelPost string
  | CancelThread string
  | RunJob string

fun step :: "publisher \<Rightarrow> operation \<Rightarrow> SchedulerService \<times> request list \<Rightarrow> SchedulerService \<times> request list" where
  "step pub (SchedulePost fault uuid post) (s, calls) = (snd (schedule_post fault uuid post s), calls)"
| "step pub (ScheduleThread fault thread) (s, calls) = (snd (schedule_thread fault thread s), calls)"
| "step pub (CancelPost post_id) (s, calls) = (snd (cancel_post post_id s), calls)"
| "step pub (CancelThread tid) (s, calls) = (snd (cancel_thread tid s), calls)"
| "step pub (RunJob job_id) (s, calls) = snd (run_job pub job_id (s, calls))"

fun run :: "publisher \<Rightarrow> operation list \<Rightarrow> SchedulerService \<times> request list \<Rightarrow> SchedulerService \<times> request list" where
  "run pub [] st = st"
| "run pub (op # ops) st = run pub ops (step pub op st)"

section \<open>Example data\<close>

text \<open>A standalone post, a thread whose members arrive at positions 3, 1, 2, and services holding them.\<close>

definition example_post :: "string \<Rightarrow> int \<Rightarrow> XPost" where
  "example_post i d =
     \<lparr>XPost.id = Some i, content = ''hello'', XPost.scheduled_date = d, XPost.timezone = ''UTC'',
      XPost.status = PENDING, thread_id = None, thread_position = None, thread_title = None,
      media_urls = None, x_post_id = None, XPost.created_at = 0, XPost.updated_at = 0\<rparr>"

definition example_member :: "string \<Rightarrow> int \<Rightarrow> XPost" where
  "example_member c n =
     \<lparr>XPost.id = Some c, content = c, XPost.scheduled_date = 30, XPost.timezone = ''UTC'',
      XPost.status = PENDING, thread_id = Some ''t'', thread_position = Some n, thread_title = None,
      media_urls = None, x_post_id = None, XPost.created_at = 0, XPost.updated_at = 0\<rparr>"

definition example_thread :: XThread where
  "example_thread =
     \<lparr>XThread.id = ''t'', title = None,
      XThread.posts = [example_member ''third'' 3, example_member ''first'' 1, example_member ''second'' 2],
      XThread.scheduled_date = 30, XThread.timezone = ''UTC'', XThread.status = PENDING,
      XThread.created_at = 0, XThread.updated_at = 0\<rparr>"

definition example_service :: SchedulerService where
  "example_service =
     snd (schedule_thread None example_thread
            (snd (schedule_post None ''u'' (example_post ''a'' 10) (init 500))))"

text \<open>
  A publisher that raises on the units whose text is listed and answers every other unit
  with an identifier made from its text.
\<close>

definition example_publisher :: "string list \<Rightarrow> publisher" where
  "example_publisher rejected calls req =
     (if tweet_text req \<in> set rejected then Inl LibraryError
      else Inr (Tweet (''x_'' @ tweet_text req)))"

text \<open>A post whose content has 281 characters, and the run that builds the example service.\<close>

definition long_post :: XPost where
  "long_post = (example_post ''long'' 10)\<lparr>XPost.content := replicate 281 (CHR ''x'')\<rparr>"

definition example_run :: "operation list" where
  "example_run =
     [SchedulePost None ''u'' (example_post ''a'' 10), ScheduleThread None example_thread]"

section \<open>Invariants\<close>

text \<open>Every registered post, and every member of a registered thread, has at most 280 characters.\<close>

definition content_bounded :: "SchedulerService \<Rightarrow> bool" where
  "content_bounded s =
     ((\<forall>k q. posts s k = Some q \<longrightarrow> length (XPost.content q) \<le> 280) \<and>
      (\<forall>k t. threads s k = Some t \<longrightarrow>
             (\<forall>c \<in> set (map XPost.content (XThread.posts t)). length c \<le> 280)))"

section \<open>Publication of a thread, observed\<close>

text \<open>
  An answer of the publisher counts as a success when it carries an identifier. The members
  of a thread in the order of publication are the members at the sorted indices.
\<close>

definition succeeded :: "error + response \<Rightarrow> bool" where
  "succeeded r = (case r of Inr (Tweet x) \<Rightarrow> True | Inr Unexpected \<Rightarrow> False | Inl e \<Rightarrow> False)"

definition members_in_order :: "XThread \<Rightarrow> XPost list" where
  "members_in_order t = map ((!) (XThread.posts t)) (sorted_members (XThread.posts t))"

text \<open>
  What one firing of a thread leaves behind, for the list \<open>is\<close> of member indices in the
  order of publication: \<open>reqs\<close> are the units sent, \<open>m\<close> is the number of members
  published. The first \<open>m\<close> units were answered with an identifier, which the member
  carries with the status \<open>PUBLISHED\<close>; when the firing failed, unit \<open>m\<close> is the last one
  sent and was not answered with an identifier; every other member is as before.
\<close>

definition thread_outcome ::
  "publisher \<Rightarrow> XPost list \<Rightarrow> nat list \<Rightarrow> request list \<Rightarrow> bool \<Rightarrow> XPost list \<Rightarrow> request list \<Rightarrow> nat \<Rightarrow> bool"
where
  "thread_outcome pub ps is calls ok ps' reqs m =
     (length ps' = length ps \<and> m \<le> length is \<and>
      length reqs = (if ok then m else Suc m) \<and>
      (ok \<longrightarrow> m = length is) \<and>
      (\<not> ok \<longrightarrow> m < length is \<and> \<not> succeeded (pub (calls @ take m reqs) (reqs ! m))) \<and>
      (\<forall>j<m. \<exists>x. pub (calls @ take j reqs) (reqs ! j) = Inr (Tweet x) \<and>
                 ps' ! (is ! j) = (ps ! (is ! j))\<lparr>x_post_id := Some x, XPost.status := PUBLISHED\<rparr>) \<and>
      (\<forall>j<length reqs. tweet_text (reqs ! j) = XPost.content (ps ! (is ! j)) \<and>
                        media (reqs ! j) = media_urls (ps ! (is ! j))) \<and>
      (\<forall>i<length ps. i \<notin> set (take m is) \<longrightarrow> ps' ! i = ps ! i))"

section \<open>Properties\<close>

subsection \<open>Auxiliary facts\<close>

lemma PostStatus_has_no_CANCELLED: "PostStatus_attr ''CANCELLED'' = Inl AttributeError"
  by (simp add: PostStatus_attr_def)

lemma delete_absent: "map_of js k = None \<Longrightarrow> AList.delete k js = js"
  by (induction js) (auto split: if_splits)

lemma cancel_post_eq:
  "cancel_post k s =
     (False, if posts s k = None then s
             else s\<lparr>scheduler := AList.delete (''post_'' @ k) (scheduler s)\<rparr>)"
  by (auto simp: cancel_post_def cancel_post_try_def remove_job_def PostStatus_has_no_CANCELLED
        delete_absent split: option.splits)

lemma cancel_thread_eq:
  "cancel_thread k s =
     (False, if threads s k = None then s
             else s\<lparr>scheduler := AList.delete (''thread_'' @ k) (scheduler s)\<rparr>)"
  by (auto simp: cancel_thread_def cancel_thread_try_def remove_job_def PostStatus_has_no_CANCELLED
        delete_absent split: option.splits)

lemma schedule_post_cases:
  "schedule_post fault uuid post s =
     (if monthly_post_count s \<ge> max_monthly_posts s then (False, s)
      else let k = (case XPost.id post of None \<Rightarrow> uuid | Some i \<Rightarrow> if truthy i then i else uuid) in
        (case fault of
           Some e \<Rightarrow> (False, s\<lparr>posts := (posts s)(k \<mapsto> post\<lparr>XPost.id := Some k\<rparr>)\<rparr>)
         | None \<Rightarrow>
             (True,
              s\<lparr>scheduler := AList.update (''post_'' @ k)
                    \<lparr>func = PublishPostJob, run_date = XPost.scheduled_date post, args = k\<rparr>
                    (scheduler s),
                posts := (posts s)(k \<mapsto> post\<lparr>XPost.id := Some k, XPost.status := SCHEDULED\<rparr>),
                monthly_post_count := monthly_post_count s + 1\<rparr>)))"
  by (simp add: schedule_post_def schedule_post_try_def add_job_def Let_def split: option.splits)

lemma schedule_thread_cases:
  "schedule_thread fault t s =
     (if XThread.posts t = [] then (False, s)
      else if monthly_post_count s + int (length (XThread.posts t)) > max_monthly_posts s
      then (False, s)
      else
        (case fault of
           Some e \<Rightarrow> (False, s\<lparr>threads := (threads s)(XThread.id t \<mapsto> t)\<rparr>)
         | None \<Rightarrow>
             (True,
              s\<lparr>scheduler := AList.update (''thread_'' @ XThread.id t)
                    \<lparr>func = PublishThreadJob, run_date = XThread.scheduled_date t,
                     args = XThread.id t\<rparr>
                    (scheduler s),
                threads := (threads s)(XThread.id t \<mapsto> t\<lparr>XThread.status := SCHEDULED\<rparr>),
                monthly_post_count := monthly_post_count s + int (length (XThread.posts t))\<rparr>)))"
  by (simp add: schedule_thread_def schedule_thread_try_def add_job_def Let_def split: option.splits)

lemma example_service_eq:
  "example_service =
     \<lparr>scheduler =
        [(''post_a'', \<lparr>func = PublishPostJob, run_date = 10, args = ''a''\<rparr>),
         (''thread_t'', \<lparr>func = PublishThreadJob, run_date = 30, args = ''t''\<rparr>)],
      posts = [''a'' \<mapsto> (example_post ''a'' 10)\<lparr>XPost.status := SCHEDULED\<rparr>],
      threads = [''t'' \<mapsto> example_thread\<lparr>XThread.status := SCHEDULED\<rparr>],
      monthly_post_count = 4, max_monthly_posts = 500\<rparr>"
  by (simp add: example_service_def schedule_post_cases schedule_thread_cases init_def
        example_post_def example_thread_def truthy_def Let_def)

subsection \<open>Cancellation\<close>

text \<open>
  C6. The enumeration has no member \<open>CANCELLED\<close>, so for every identifier in the registry
  of posts (of threads) the \<open>try\<close> block of \<open>cancel_post\<close> (\<open>cancel_thread\<close>) raises, the
  handler returns \<open>False\<close>; a trigger that was pending is gone all the same (the exception
  is then the \<open>AttributeError\<close>), while the entity and the counter are as before.
\<close>

theorem cancel_always_refused:
  "PostStatus_attr ''CANCELLED'' = Inl AttributeError \<and>
   (posts s k = Some p \<longrightarrow>
      (\<exists>e. fst (cancel_post_try k s) = Inl e) \<and>
      (map_of (scheduler s) (''post_'' @ k) \<noteq> None \<longrightarrow>
         fst (cancel_post_try k s) = Inl AttributeError) \<and>
      fst (cancel_post k s) = False \<and>
      snd (cancel_post k s) = s\<lparr>scheduler := AList.delete (''post_'' @ k) (scheduler s)\<rparr> \<and>
      map_of (scheduler (snd (cancel_post k s))) (''post_'' @ k) = None \<and>
      posts (snd (cancel_post k s)) k = Some p \<and>
      monthly_post_count (snd (cancel_post k s)) = monthly_post_count s) \<and>
   (threads s k = Some t \<longrightarrow>
      (\<exists>e. fst (cancel_thread_try k s) = Inl e) \<and>
      (map_of (scheduler s) (''thread_'' @ k) \<noteq> None \<longrightarrow>
         fst (cancel_thread_try k s) = Inl AttributeError) \<and>
      fst (cancel_thread k s) = False \<and>
      snd (cancel_thread k s) = s\<lparr>scheduler := AList.delete (''thread_'' @ k) (scheduler s)\<rparr> \<and>
      map_of (scheduler (snd (cancel_thread k s))) (''thread_'' @ k) = None \<and>
      threads (snd (cancel_thread k s)) k = Some t \<and>
      monthly_post_count (snd (cancel_thread k s)) = monthly_post_count s)"
proof -
  have post_try: "\<exists>e. fst (cancel_post_try k s) = Inl e" if "posts s k = Some p"
    using that
    by (auto simp: cancel_post_try_def remove_job_def PostStatus_has_no_CANCELLED
          split: option.splits)
  have post_attr: "fst (cancel_post_try k s) = Inl AttributeError"
    if "posts s k = Some p" "map_of (scheduler s) (''post_'' @ k) \<noteq> None"
    using that
    by (auto simp: cancel_post_try_def remove_job_def PostStatus_has_no_CANCELLED
          split: option.splits)
  have thread_try: "\<exists>e. fst (cancel_thread_try k s) = Inl e" if "threads s k = Some t"
    using that
    by (auto simp: cancel_thread_try_def remove_job_def PostStatus_has_no_CANCELLED
          split: option.splits)
  have thread_attr: "fst (cancel_thread_try k s) = Inl AttributeError"
    if "threads s k = Some t" "map_of (scheduler s) (''thread_'' @ k) \<noteq> None"
    using that
    by (auto simp: cancel_thread_try_def remove_job_def PostStatus_has_no_CANCELLED
          split: option.splits)
  show ?thesis
    using post_try post_attr thread_try thread_attr
    by (simp add: PostStatus_has_no_CANCELLED cancel_post_eq cancel_thread_eq AList.delete_conv')
qed

theorem cancel_always_refused_witness:
  "posts example_service ''a'' = Some ((example_post ''a'' 10)\<lparr>XPost.status := SCHEDULED\<rparr>) \<and>
   map_of (scheduler example_service) ''post_a'' \<noteq> None \<and>
   fst (cancel_post_try ''a'' example_service) = Inl AttributeError \<and>
   fst (cancel_post ''a'' example_service) = False \<and>
   map_of (scheduler (snd (cancel_post ''a'' example_service))) ''post_a'' = None \<and>
   posts (snd (cancel_post ''a'' example_service)) ''a'' =
     Some ((example_post ''a'' 10)\<lparr>XPost.status := SCHEDULED\<rparr>) \<and>
   monthly_post_count (snd (cancel_post ''a'' example_service)) = 4 \<and>
   threads example_service ''t'' = Some (example_thread\<lparr>XThread.status := SCHEDULED\<rparr>) \<and>
   map_of (scheduler example_service) ''thread_t'' \<noteq> None \<and>
   fst (cancel_thread_try ''t'' example_service) = Inl AttributeError \<and>
   fst (cancel_thread ''t'' example_service) = False \<and>
   map_of (scheduler (snd (cancel_thread ''t'' example_service))) ''thread_t'' = None \<and>
   threads (snd (cancel_thread ''t'' example_service)) ''t'' =
     Some (example_thread\<lparr>XThread.status := SCHEDULED\<rparr>) \<and>
   monthly_post_count (snd (cancel_thread ''t'' example_service)) = 4"
proof -
  have p: "posts example_service ''a'' = Some ((example_post ''a'' 10)\<lparr>XPost.status := SCHEDULED\<rparr>)"
    by (simp add: example_service_eq)
  have t: "threads example_service ''t'' = Some (example_thread\<lparr>XThread.status := SCHEDULED\<rparr>)"
    by (simp add: example_service_eq)
  have jp: "map_of (scheduler example_service) (''post_'' @ ''a'') \<noteq> None"
    by (simp add: example_service_eq)
  have jt: "map_of (scheduler example_service) (''thread_'' @ ''t'') \<noteq> None"
    by (simp add: example_service_eq)
  have c: "monthly_post_count example_service = 4"
    by (simp add: example_service_eq)
  from cancel_always_refused [of example_service "''a''"
        "(example_post ''a'' 10)\<lparr>XPost.status := SCHEDULED\<rparr>"
        "example_thread\<lparr>XThread.status := SCHEDULED\<rparr>"]
       cancel_always_refused [of example_service "''t''"
        "(example_post ''a'' 10)\<lparr>XPost.status := SCHEDULED\<rparr>"
        "example_thread\<lparr>XThread.status := SCHEDULED\<rparr>"]
       p t jp jt c
  show ?thesis by (simp add: AList.delete_conv')
qed

text \<open>
  C1, evaluated on the code: a post and a thread are admitted (counter 4, both triggers
  pending) and then cancelled. Each cancel returns \<open>False\<close>, the entity is still
  \<open>SCHEDULED\<close>, the counter is still 4, and the trigger is gone.
\<close>

theorem cancel_scheduled_post_fails:
  "posts example_service ''a'' = Some ((example_post ''a'' 10)\<lparr>XPost.status := SCHEDULED\<rparr>) \<and>
   map_of (scheduler example_service) ''post_a'' =
     Some \<lparr>func = PublishPostJob, run_date = 10, args = ''a''\<rparr> \<and>
   monthly_post_count example_service = 4 \<and>
   fst (cancel_post ''a'' example_service) = False \<and>
   map_option XPost.status (posts (snd (cancel_post ''a'' example_service)) ''a'') = Some SCHEDULED \<and>
   monthly_post_count (snd (cancel_post ''a'' example_service)) = 4 \<and>
   map_of (scheduler (snd (cancel_post ''a'' example_service))) ''post_a'' = None \<and>
   fst (cancel_thread ''t'' example_service) = False \<and>
   map_option XThread.status (threads (snd (cancel_thread ''t'' example_service)) ''t'') = Some SCHEDULED \<and>
   monthly_post_count (snd (cancel_thread ''t'' example_service)) = 4 \<and>
   map_of (scheduler (snd (cancel_thread ''t'' example_service))) ''thread_t'' = None"
  by (simp add: cancel_post_eq cancel_thread_eq example_service_eq)

subsection \<open>Firing and cancelling\<close>

lemma publish_post_job_scheduler:
  "scheduler (fst (snd (publish_post_job pub a (s, calls)))) = scheduler s"
  by (auto simp: publish_post_job_def publish_post_job_try_def
        split: option.splits prod.splits sum.splits)

lemma publish_thread_job_scheduler:
  "scheduler (fst (snd (publish_thread_job pub a (s, calls)))) = scheduler s"
  by (auto simp: publish_thread_job_def publish_thread_job_try_def
        split: option.splits prod.splits sum.splits)

lemma run_job_scheduler:
  "scheduler (fst (snd (run_job pub job_id (s, calls)))) = AList.delete job_id (scheduler s)"
  by (auto simp: run_job_def Let_def publish_post_job_scheduler publish_thread_job_scheduler
        delete_absent split: option.splits job_func.splits)

lemma publish_post_job_count:
  "monthly_post_count (fst (snd (publish_post_job pub a (s, calls)))) = monthly_post_count s \<and>
   max_monthly_posts (fst (snd (publish_post_job pub a (s, calls)))) = max_monthly_posts s"
  by (auto simp: publish_post_job_def publish_post_job_try_def
        split: option.splits prod.splits sum.splits)

lemma publish_thread_job_count:
  "monthly_post_count (fst (snd (publish_thread_job pub a (s, calls)))) = monthly_post_count s \<and>
   max_monthly_posts (fst (snd (publish_thread_job pub a (s, calls)))) = max_monthly_posts s"
  by (auto simp: publish_thread_job_def publish_thread_job_try_def
        split: option.splits prod.splits sum.splits)

lemma run_job_count:
  "monthly_post_count (fst (snd (run_job pub job_id (s, calls)))) = monthly_post_count s \<and>
   max_monthly_posts (fst (snd (run_job pub job_id (s, calls)))) = max_monthly_posts s"
  by (auto simp: run_job_def Let_def publish_post_job_count publish_thread_job_count
        split: option.splits job_func.splits)

lemma fired_example:
  "fst (snd (run_job (example_publisher []) ''post_a'' (example_service, []))) =
     example_service
       \<lparr>scheduler := [(''thread_t'', \<lparr>func = PublishThreadJob, run_date = 30, args = ''t''\<rparr>)],
        posts := [''a'' \<mapsto> (example_post ''a'' 10)
                   \<lparr>x_post_id := Some ''x_hello'', XPost.status := PUBLISHED\<rparr>]\<rparr>"
  by (simp add: run_job_def publish_post_job_def publish_post_job_try_def publish_post_def
        example_service_eq example_publisher_def example_post_def truthy_def Let_def)

text \<open>
  C8. \<open>cancel_post\<close> returns \<open>False\<close> and changes nothing for an identifier that is not in
  the registry, and it returns \<open>False\<close> and changes nothing for a post whose trigger has
  fired: the same returned value in both cases.
\<close>

theorem cancel_post_unknown_or_fired:
  "(posts s k = None \<longrightarrow> cancel_post k s = (False, s)) \<and>
   cancel_post k (fst (snd (run_job pub (''post_'' @ k) (s, calls)))) =
     (False, fst (snd (run_job pub (''post_'' @ k) (s, calls))))"
proof -
  have "AList.delete j (AList.delete j js) = AList.delete j js" for j and js :: jobstore
    by (simp add: delete_absent AList.delete_conv')
  then show ?thesis
    by (simp add: cancel_post_eq run_job_scheduler)
qed

theorem cancel_post_unknown_or_fired_witness:
  "posts example_service ''zz'' = None \<and>
   cancel_post ''zz'' example_service = (False, example_service) \<and>
   map_option XPost.status
     (posts (fst (snd (run_job (example_publisher []) ''post_a'' (example_service, [])))) ''a'') =
     Some PUBLISHED \<and>
   cancel_post ''a'' (fst (snd (run_job (example_publisher []) ''post_a'' (example_service, [])))) =
     (False, fst (snd (run_job (example_publisher []) ''post_a'' (example_service, []))))"
proof -
  have h: "posts example_service ''zz'' = None"
    by (simp add: example_service_eq)
  have st: "map_option XPost.status
     (posts (fst (snd (run_job (example_publisher []) ''post_a'' (example_service, [])))) ''a'') =
     Some PUBLISHED"
    by (simp add: fired_example)
  from cancel_post_unknown_or_fired [where s = example_service and k = "''zz''"]
       cancel_post_unknown_or_fired [where s = example_service and k = "''a''" and pub = "example_publisher []" and calls = "[]"]
       h st
  show ?thesis by simp
qed

subsection \<open>The quota counter\<close>

lemma step_count:
  "max_monthly_posts (fst (step pub op (s, calls))) = max_monthly_posts s \<and>
   (monthly_post_count (fst (step pub op (s, calls))) = monthly_post_count s \<or>
    monthly_post_count s < monthly_post_count (fst (step pub op (s, calls))) \<and>
    monthly_post_count (fst (step pub op (s, calls))) \<le> max_monthly_posts s)"
proof (cases op)
  case (SchedulePost fault uuid post)
  then show ?thesis
    by (auto simp: schedule_post_cases Let_def split: option.splits)
next
  case (ScheduleThread fault thread)
  then show ?thesis
    by (auto simp: schedule_thread_cases split: option.splits)
next
  case (CancelPost k)
  then show ?thesis by (simp add: cancel_post_eq)
next
  case (CancelThread k)
  then show ?thesis by (simp add: cancel_thread_eq)
next
  case (RunJob j)
  then show ?thesis by (simp add: run_job_count)
qed

lemma run_count:
  "monthly_post_count (fst st) \<le> max_monthly_posts (fst st) \<Longrightarrow>
   monthly_post_count (fst (run pub ops st)) \<le> max_monthly_posts (fst (run pub ops st)) \<and>
   max_monthly_posts (fst (run pub ops st)) = max_monthly_posts (fst st)"
proof (induction ops arbitrary: st)
  case Nil
  then show ?case by simp
next
  case (Cons op ops)
  obtain s calls where st: "st = (s, calls)" by (cases st)
  from step_count [of pub op s calls] Cons.prems st
  have "monthly_post_count (fst (step pub op st)) \<le> max_monthly_posts (fst (step pub op st))"
    and "max_monthly_posts (fst (step pub op st)) = max_monthly_posts (fst st)"
    by auto
  with Cons.IH [of "step pub op st"] show ?case by simp
qed

text \<open>
  C3. \<open>schedule_post\<close> admits only if the counter plus one is at most the ceiling and then
  adds one; \<open>schedule_thread\<close> admits only if the counter plus the number of members is at
  most the ceiling and then adds that number; a refused call leaves the counter alone; no
  operation that raises the counter takes it above the ceiling or changes the ceiling; and in
  every run from the initial state, with a ceiling that is not negative, the counter is at
  most the ceiling.
\<close>

theorem quota_never_exceeds_ceiling:
  "(fst (schedule_post fault uuid post s) \<longrightarrow>
      monthly_post_count s + 1 \<le> max_monthly_posts s \<and>
      monthly_post_count (snd (schedule_post fault uuid post s)) = monthly_post_count s + 1) \<and>
   (\<not> fst (schedule_post fault uuid post s) \<longrightarrow>
      monthly_post_count (snd (schedule_post fault uuid post s)) = monthly_post_count s) \<and>
   (fst (schedule_thread fault thread s) \<longrightarrow>
      monthly_post_count s + int (length (XThread.posts thread)) \<le> max_monthly_posts s \<and>
      monthly_post_count (snd (schedule_thread fault thread s)) =
        monthly_post_count s + int (length (XThread.posts thread))) \<and>
   (\<not> fst (schedule_thread fault thread s) \<longrightarrow>
      monthly_post_count (snd (schedule_thread fault thread s)) = monthly_post_count s) \<and>
   (monthly_post_count s < monthly_post_count (fst (step pub op (s, calls))) \<longrightarrow>
      monthly_post_count (fst (step pub op (s, calls))) \<le> max_monthly_posts s) \<and>
   max_monthly_posts (fst (step pub op (s, calls))) = max_monthly_posts s \<and>
   (0 \<le> mx \<longrightarrow>
      monthly_post_count (fst (run pub ops (init mx, []))) \<le> mx \<and>
      max_monthly_posts (fst (run pub ops (init mx, []))) = mx)"
proof -
  have a: "fst (schedule_post fault uuid post s) \<longrightarrow>
      monthly_post_count s + 1 \<le> max_monthly_posts s \<and>
      monthly_post_count (snd (schedule_post fault uuid post s)) = monthly_post_count s + 1"
    by (auto simp: schedule_post_cases Let_def split: option.splits)
  have b: "\<not> fst (schedule_post fault uuid post s) \<longrightarrow>
      monthly_post_count (snd (schedule_post fault uuid post s)) = monthly_post_count s"
    by (auto simp: schedule_post_cases Let_def split: option.splits)
  have c: "fst (schedule_thread fault thread s) \<longrightarrow>
      monthly_post_count s + int (length (XThread.posts thread)) \<le> max_monthly_posts s \<and>
      monthly_post_count (snd (schedule_thread fault thread s)) =
        monthly_post_count s + int (length (XThread.posts thread))"
    by (auto simp: schedule_thread_cases split: option.splits)
  have d: "\<not> fst (schedule_thread fault thread s) \<longrightarrow>
      monthly_post_count (snd (schedule_thread fault thread s)) = monthly_post_count s"
    by (auto simp: schedule_thread_cases split: option.splits)
  have e: "monthly_post_count s < monthly_post_count (fst (step pub op (s, calls))) \<longrightarrow>
      monthly_post_count (fst (step pub op (s, calls))) \<le> max_monthly_posts s"
    using step_count [of pub op s calls] by auto
  have f: "max_monthly_posts (fst (step pub op (s, calls))) = max_monthly_posts s"
    using step_count [of pub op s calls] by simp
  have g: "0 \<le> mx \<longrightarrow>
      monthly_post_count (fst (run pub ops (init mx, []))) \<le> mx \<and>
      max_monthly_posts (fst (run pub ops (init mx, []))) = mx"
    using run_count [of "(init mx, [])" pub ops] by (auto simp: init_def)
  from a b c d e f g show ?thesis by blast
qed

theorem quota_never_exceeds_ceiling_witness:
  "fst (schedule_post None ''u'' (example_post ''a'' 10) (init 1)) \<and>
   monthly_post_count (init 1) + 1 \<le> max_monthly_posts (init 1) \<and>
   monthly_post_count (snd (schedule_post None ''u'' (example_post ''a'' 10) (init 1))) = 1 \<and>
   \<not> fst (schedule_post None ''u'' (example_post ''b'' 10)
            (snd (schedule_post None ''u'' (example_post ''a'' 10) (init 1)))) \<and>
   monthly_post_count
     (snd (schedule_post None ''u'' (example_post ''b'' 10)
            (snd (schedule_post None ''u'' (example_post ''a'' 10) (init 1))))) = 1 \<and>
   fst (schedule_thread None example_thread (init 3)) \<and>
   monthly_post_count (snd (schedule_thread None example_thread (init 3))) = 3 \<and>
   \<not> fst (schedule_thread None example_thread (init 2)) \<and>
   monthly_post_count (snd (schedule_thread None example_thread (init 2))) = 0 \<and>
   monthly_post_count (init 3) <
     monthly_post_count (fst (step (example_publisher []) (ScheduleThread None example_thread) (init 3, []))) \<and>
   monthly_post_count (fst (step (example_publisher []) (ScheduleThread None example_thread) (init 3, [])))
     \<le> max_monthly_posts (init 3) \<and>
   (0::int) \<le> 1 \<and>
   monthly_post_count
     (fst (run (example_publisher [])
            [SchedulePost None ''u'' (example_post ''a'' 10),
             SchedulePost None ''u'' (example_post ''b'' 10), RunJob ''post_a'',
             CancelPost ''a'', ScheduleThread None example_thread]
            (init 1, []))) \<le> 1"
proof -
  have a: "fst (schedule_post None ''u'' (example_post ''a'' 10) (init 1))"
    by (simp add: schedule_post_cases init_def Let_def)
  have s1: "snd (schedule_post None ''u'' (example_post ''a'' 10) (init 1)) =
    (init 1)\<lparr>scheduler := [(''post_a'', \<lparr>func = PublishPostJob, run_date = 10, args = ''a''\<rparr>)],
             posts := [''a'' \<mapsto> (example_post ''a'' 10)\<lparr>XPost.status := SCHEDULED\<rparr>],
             monthly_post_count := 1\<rparr>"
    by (simp add: schedule_post_cases init_def Let_def example_post_def truthy_def)
  have b: "\<not> fst (schedule_post None ''u'' (example_post ''b'' 10)
            (snd (schedule_post None ''u'' (example_post ''a'' 10) (init 1))))"
    by (simp add: s1) (simp add: schedule_post_cases init_def)
  have c: "fst (schedule_thread None example_thread (init 3))"
    by (simp add: schedule_thread_cases init_def example_thread_def)
  have d: "\<not> fst (schedule_thread None example_thread (init 2))"
    by (simp add: schedule_thread_cases init_def example_thread_def)
  have e: "monthly_post_count (init 3) <
     monthly_post_count (fst (step (example_publisher []) (ScheduleThread None example_thread) (init 3, [])))"
    by (simp add: schedule_thread_cases init_def example_thread_def)
  have i: "monthly_post_count (init 1) = 0" "max_monthly_posts (init 1) = 1"
     "monthly_post_count (init 3) = 0" "max_monthly_posts (init 3) = 3"
     "monthly_post_count (init 2) = 0" "length (XThread.posts example_thread) = 3"
    by (simp_all add: init_def example_thread_def)
  from quota_never_exceeds_ceiling
         [where fault = None and uuid = "''u''" and post = "example_post ''a'' 10" and s = "init 1"
            and thread = example_thread and pub = "example_publisher []"
            and op = "ScheduleThread None example_thread" and calls = "[]" and mx = 1
            and ops = "[SchedulePost None ''u'' (example_post ''a'' 10),
               SchedulePost None ''u'' (example_post ''b'' 10), RunJob ''post_a'',
               CancelPost ''a'', ScheduleThread None example_thread]"]
       quota_never_exceeds_ceiling
         [where fault = None and uuid = "''u''" and post = "example_post ''b'' 10" and s = "snd (schedule_post None ''u'' (example_post ''a'' 10) (init 1))"
            and thread = example_thread and pub = "example_publisher []"
            and op = "ScheduleThread None example_thread" and calls = "[]" and mx = 1
            and ops = "[]"]
       quota_never_exceeds_ceiling
         [where fault = None and uuid = "''u''" and post = "example_post ''a'' 10" and s = "init 3"
            and thread = example_thread and pub = "example_publisher []"
            and op = "ScheduleThread None example_thread" and calls = "[]" and mx = 1
            and ops = "[]"]
       quota_never_exceeds_ceiling
         [where fault = None and uuid = "''u''" and post = "example_post ''a'' 10" and s = "init 2"
            and thread = example_thread and pub = "example_publisher []"
            and op = "ScheduleThread None example_thread" and calls = "[]" and mx = 1
            and ops = "[]"]
       a b c d e i
  show ?thesis by simp
qed

subsection \<open>Refused admission\<close>

lemma id_update_same: "XPost.id p = Some k \<Longrightarrow> p\<lparr>XPost.id := Some k\<rparr> = p"
  by (cases p) simp

text \<open>
  C2, as the code has it. \<open>schedule_post\<close> returns \<open>True\<close> exactly when the counter is
  below the ceiling and booking the trigger does not raise. When the counter has reached the
  ceiling the call returns \<open>False\<close> and the state is as before. When the counter is below
  the ceiling and booking raises, the call returns \<open>False\<close> and the state is the one before
  with the post stored in the registry of posts under its identifier (the generated one when
  the post had none or an empty one), its status as submitted: for a post that came with an
  identifier, the registry holds the post exactly as submitted. \<open>schedule_thread\<close> returns
  \<open>True\<close> exactly when the thread has members, the counter plus their number is at most
  the ceiling and booking does not raise; an empty thread or a refusal by the quota leaves
  the state as before; when booking raises, the state is the one before with the thread, as
  submitted, stored in the registry of threads under its identifier. Every call that
  returns \<open>False\<close> leaves the counter, the ceiling, the trigger store and the other registry
  as they were.
\<close>

theorem refused_admission_state:
  "(fst (schedule_post fault uuid post s) =
      (monthly_post_count s < max_monthly_posts s \<and> fault = None)) \<and>
   (max_monthly_posts s \<le> monthly_post_count s \<longrightarrow>
      schedule_post fault uuid post s = (False, s)) \<and>
   (monthly_post_count s < max_monthly_posts s \<and> fault \<noteq> None \<longrightarrow>
      schedule_post fault uuid post s =
        (False,
         s\<lparr>posts := (posts s)
              ((case XPost.id post of None \<Rightarrow> uuid | Some i \<Rightarrow> if truthy i then i else uuid) \<mapsto>
               post\<lparr>XPost.id :=
                 Some (case XPost.id post of None \<Rightarrow> uuid | Some i \<Rightarrow> if truthy i then i else uuid)\<rparr>)\<rparr>) \<and>
      posts (snd (schedule_post fault uuid post s))
        (case XPost.id post of None \<Rightarrow> uuid | Some i \<Rightarrow> if truthy i then i else uuid) =
        Some (post\<lparr>XPost.id :=
                Some (case XPost.id post of None \<Rightarrow> uuid | Some i \<Rightarrow> if truthy i then i else uuid)\<rparr>)) \<and>
   (monthly_post_count s < max_monthly_posts s \<and> fault \<noteq> None \<and>
    XPost.id post = Some k \<and> truthy k \<longrightarrow>
      schedule_post fault uuid post s = (False, s\<lparr>posts := (posts s)(k \<mapsto> post)\<rparr>) \<and>
      posts (snd (schedule_post fault uuid post s)) k = Some post) \<and>
   (\<not> fst (schedule_post fault uuid post s) \<longrightarrow>
      monthly_post_count (snd (schedule_post fault uuid post s)) = monthly_post_count s \<and>
      max_monthly_posts (snd (schedule_post fault uuid post s)) = max_monthly_posts s \<and>
      scheduler (snd (schedule_post fault uuid post s)) = scheduler s \<and>
      threads (snd (schedule_post fault uuid post s)) = threads s) \<and>
   (fst (schedule_thread fault thread s) =
      (XThread.posts thread \<noteq> [] \<and>
       monthly_post_count s + int (length (XThread.posts thread)) \<le> max_monthly_posts s \<and>
       fault = None)) \<and>
   (XThread.posts thread = [] \<or>
    max_monthly_posts s < monthly_post_count s + int (length (XThread.posts thread)) \<longrightarrow>
      schedule_thread fault thread s = (False, s)) \<and>
   (XThread.posts thread \<noteq> [] \<and>
    monthly_post_count s + int (length (XThread.posts thread)) \<le> max_monthly_posts s \<and>
    fault \<noteq> None \<longrightarrow>
      schedule_thread fault thread s =
        (False, s\<lparr>threads := (threads s)(XThread.id thread \<mapsto> thread)\<rparr>) \<and>
      threads (snd (schedule_thread fault thread s)) (XThread.id thread) = Some thread) \<and>
   (\<not> fst (schedule_thread fault thread s) \<longrightarrow>
      monthly_post_count (snd (schedule_thread fault thread s)) = monthly_post_count s \<and>
      max_monthly_posts (snd (schedule_thread fault thread s)) = max_monthly_posts s \<and>
      scheduler (snd (schedule_thread fault thread s)) = scheduler s \<and>
      posts (snd (schedule_thread fault thread s)) = posts s)"
proof -
  let ?k = "case XPost.id post of None \<Rightarrow> uuid | Some i \<Rightarrow> if truthy i then i else uuid"
  have p1: "fst (schedule_post fault uuid post s) =
      (monthly_post_count s < max_monthly_posts s \<and> fault = None)"
    by (auto simp: schedule_post_cases Let_def split: option.splits)
  have p2: "max_monthly_posts s \<le> monthly_post_count s \<longrightarrow>
      schedule_post fault uuid post s = (False, s)"
    by (simp add: schedule_post_cases)
  have p3: "monthly_post_count s < max_monthly_posts s \<and> fault \<noteq> None \<longrightarrow>
      schedule_post fault uuid post s =
        (False, s\<lparr>posts := (posts s)(?k \<mapsto> post\<lparr>XPost.id := Some ?k\<rparr>)\<rparr>) \<and>
      posts (snd (schedule_post fault uuid post s)) ?k = Some (post\<lparr>XPost.id := Some ?k\<rparr>)"
    by (auto simp: schedule_post_cases Let_def split: option.splits)
  have p4: "monthly_post_count s < max_monthly_posts s \<and> fault \<noteq> None \<and>
    XPost.id post = Some k \<and> truthy k \<longrightarrow>
      schedule_post fault uuid post s = (False, s\<lparr>posts := (posts s)(k \<mapsto> post)\<rparr>) \<and>
      posts (snd (schedule_post fault uuid post s)) k = Some post"
  proof (intro impI)
    assume h: "monthly_post_count s < max_monthly_posts s \<and> fault \<noteq> None \<and>
      XPost.id post = Some k \<and> truthy k"
    then have "post\<lparr>XPost.id := Some k\<rparr> = post" by (simp add: id_update_same)
    with h show "schedule_post fault uuid post s = (False, s\<lparr>posts := (posts s)(k \<mapsto> post)\<rparr>) \<and>
      posts (snd (schedule_post fault uuid post s)) k = Some post"
      by (auto simp: schedule_post_cases Let_def id_update_same split: option.splits)
  qed
  have p5: "\<not> fst (schedule_post fault uuid post s) \<longrightarrow>
      monthly_post_count (snd (schedule_post fault uuid post s)) = monthly_post_count s \<and>
      max_monthly_posts (snd (schedule_post fault uuid post s)) = max_monthly_posts s \<and>
      scheduler (snd (schedule_post fault uuid post s)) = scheduler s \<and>
      threads (snd (schedule_post fault uuid post s)) = threads s"
    by (auto simp: schedule_post_cases Let_def split: option.splits)
  have t1: "fst (schedule_thread fault thread s) =
      (XThread.posts thread \<noteq> [] \<and>
       monthly_post_count s + int (length (XThread.posts thread)) \<le> max_monthly_posts s \<and>
       fault = None)"
    by (auto simp: schedule_thread_cases split: option.splits)
  have t2: "XThread.posts thread = [] \<or>
    max_monthly_posts s < monthly_post_count s + int (length (XThread.posts thread)) \<longrightarrow>
      schedule_thread fault thread s = (False, s)"
    by (auto simp: schedule_thread_cases)
  have t3: "XThread.posts thread \<noteq> [] \<and>
    monthly_post_count s + int (length (XThread.posts thread)) \<le> max_monthly_posts s \<and>
    fault \<noteq> None \<longrightarrow>
      schedule_thread fault thread s =
        (False, s\<lparr>threads := (threads s)(XThread.id thread \<mapsto> thread)\<rparr>) \<and>
      threads (snd (schedule_thread fault thread s)) (XThread.id thread) = Some thread"
    by (auto simp: schedule_thread_cases split: option.splits)
  have t4: "\<not> fst (schedule_thread fault thread s) \<longrightarrow>
      monthly_post_count (snd (schedule_thread fault thread s)) = monthly_post_count s \<and>
      max_monthly_posts (snd (schedule_thread fault thread s)) = max_monthly_posts s \<and>
      scheduler (snd (schedule_thread fault thread s)) = scheduler s \<and>
      posts (snd (schedule_thread fault thread s)) = posts s"
    by (auto simp: schedule_thread_cases split: option.splits)
  from p1 p2 p3 p4 p5 t1 t2 t3 t4 show ?thesis by blast
qed

theorem refused_admission_state_witness:
  "max_monthly_posts (init 0) \<le> monthly_post_count (init 0) \<and>
   schedule_post None ''u'' (example_post ''a'' 10) (init 0) = (False, init 0) \<and>
   monthly_post_count (init 500) < max_monthly_posts (init 500) \<and>
   XPost.id (example_post ''a'' 10) = Some ''a'' \<and> truthy ''a'' \<and>
   schedule_post (Some LibraryError) ''u'' (example_post ''a'' 10) (init 500) =
     (False, (init 500)\<lparr>posts := (posts (init 500))(''a'' \<mapsto> example_post ''a'' 10)\<rparr>) \<and>
   posts (snd (schedule_post (Some LibraryError) ''u'' (example_post ''a'' 10) (init 500))) ''a'' =
     Some (example_post ''a'' 10) \<and>
   monthly_post_count (snd (schedule_post (Some LibraryError) ''u'' (example_post ''a'' 10) (init 500))) = 0 \<and>
   scheduler (snd (schedule_post (Some LibraryError) ''u'' (example_post ''a'' 10) (init 500))) = [] \<and>
   posts (snd (schedule_post (Some LibraryError) ''u''
                 ((example_post ''a'' 10)\<lparr>XPost.id := None\<rparr>) (init 500))) ''u'' =
     Some ((example_post ''a'' 10)\<lparr>XPost.id := Some ''u''\<rparr>) \<and>
   schedule_thread None (example_thread\<lparr>XThread.posts := []\<rparr>) (init 500) = (False, init 500) \<and>
   max_monthly_posts (init 2) < monthly_post_count (init 2) + int (length (XThread.posts example_thread)) \<and>
   schedule_thread None example_thread (init 2) = (False, init 2) \<and>
   XThread.posts example_thread \<noteq> [] \<and>
   schedule_thread (Some LibraryError) example_thread (init 500) =
     (False, (init 500)\<lparr>threads := (threads (init 500))(''t'' \<mapsto> example_thread)\<rparr>) \<and>
   threads (snd (schedule_thread (Some LibraryError) example_thread (init 500))) ''t'' =
     Some example_thread \<and>
   monthly_post_count (snd (schedule_thread (Some LibraryError) example_thread (init 500))) = 0 \<and>
   scheduler (snd (schedule_thread (Some LibraryError) example_thread (init 500))) = []"
proof -
  have i: "monthly_post_count (init 0) = 0" "max_monthly_posts (init 0) = 0"
    "monthly_post_count (init 500) = 0" "max_monthly_posts (init 500) = 500"
    "monthly_post_count (init 2) = 0" "max_monthly_posts (init 2) = 2"
    "scheduler (init 500) = []"
    by (simp_all add: init_def)
  have e: "XPost.id (example_post ''a'' 10) = Some ''a''" "truthy ''a''"
    "XPost.id ((example_post ''a'' 10)\<lparr>XPost.id := None\<rparr>) = None"
    "XThread.posts example_thread \<noteq> []" "length (XThread.posts example_thread) = 3"
    "XThread.id example_thread = ''t''"
    by (simp_all add: example_post_def example_thread_def truthy_def)
  note A = refused_admission_state
         [where fault = None and uuid = "''u''" and post = "example_post ''a'' 10" and s = "init 0"
            and thread = "example_thread\<lparr>XThread.posts := []\<rparr>" and k = "''a''"]
  note B = refused_admission_state
         [where fault = "Some LibraryError" and uuid = "''u''" and post = "example_post ''a'' 10"
            and s = "init 500" and thread = example_thread and k = "''a''"]
  note C = refused_admission_state
         [where fault = "Some LibraryError" and uuid = "''u''"
            and post = "(example_post ''a'' 10)\<lparr>XPost.id := None\<rparr>"
            and s = "init 500" and thread = "example_thread\<lparr>XThread.posts := []\<rparr>" and k = "''a''"]
  note D = refused_admission_state
         [where fault = None and uuid = "''u''" and post = "example_post ''a'' 10" and s = "init 2"
            and thread = example_thread and k = "''a''"]
  from A i have a: "schedule_post None ''u'' (example_post ''a'' 10) (init 0) = (False, init 0)"
    by simp
  from B i e have b1:
    "schedule_post (Some LibraryError) ''u'' (example_post ''a'' 10) (init 500) =
       (False, (init 500)\<lparr>posts := (posts (init 500))(''a'' \<mapsto> example_post ''a'' 10)\<rparr>)"
    "posts (snd (schedule_post (Some LibraryError) ''u'' (example_post ''a'' 10) (init 500))) ''a'' =
       Some (example_post ''a'' 10)"
    by (simp_all add: id_update_same)
  from B i have b2:
    "monthly_post_count (snd (schedule_post (Some LibraryError) ''u'' (example_post ''a'' 10) (init 500))) = 0"
    "scheduler (snd (schedule_post (Some LibraryError) ''u'' (example_post ''a'' 10) (init 500))) = []"
    by simp_all
  from C i e(3) have c:
    "posts (snd (schedule_post (Some LibraryError) ''u''
                 ((example_post ''a'' 10)\<lparr>XPost.id := None\<rparr>) (init 500))) ''u'' =
     Some ((example_post ''a'' 10)\<lparr>XPost.id := Some ''u''\<rparr>)"
    by simp
  from C have c2:
    "schedule_thread (Some LibraryError) (example_thread\<lparr>XThread.posts := []\<rparr>) (init 500) = (False, init 500)"
    by simp
  from refused_admission_state
         [where fault = None and uuid = "''u''" and post = "example_post ''a'' 10" and s = "init 500"
            and thread = "example_thread\<lparr>XThread.posts := []\<rparr>" and k = "''a''"]
  have c3: "schedule_thread None (example_thread\<lparr>XThread.posts := []\<rparr>) (init 500) = (False, init 500)"
    by simp
  from D i e(5) have d: "schedule_thread None example_thread (init 2) = (False, init 2)"
    by simp
  from B i e(4,5,6) have t:
    "schedule_thread (Some LibraryError) example_thread (init 500) =
       (False, (init 500)\<lparr>threads := (threads (init 500))(''t'' \<mapsto> example_thread)\<rparr>)"
    "threads (snd (schedule_thread (Some LibraryError) example_thread (init 500))) ''t'' =
       Some example_thread"
    by simp_all
  from B i e(4,5) have t2:
    "monthly_post_count (snd (schedule_thread (Some LibraryError) example_thread (init 500))) = 0"
    "scheduler (snd (schedule_thread (Some LibraryError) example_thread (init 500))) = []"
    by simp_all
  from i e a b1 b2 c c3 d t t2 show ?thesis by simp
qed

text \<open>
  C2 as stated fails when booking the trigger raises: the call returns \<open>False\<close> and the
  post (the thread) is in the registry, where it was not before.
\<close>

theorem failed_booking_leaves_entity_registered:
  "\<not> fst (schedule_post (Some LibraryError) ''u'' (example_post ''a'' 10) (init 500)) \<and>
   posts (init 500) ''a'' = None \<and>
   posts (snd (schedule_post (Some LibraryError) ''u'' (example_post ''a'' 10) (init 500))) ''a'' =
     Some (example_post ''a'' 10) \<and>
   \<not> fst (schedule_thread (Some LibraryError) example_thread (init 500)) \<and>
   threads (init 500) ''t'' = None \<and>
   threads (snd (schedule_thread (Some LibraryError) example_thread (init 500))) ''t'' =
     Some example_thread"
  by (simp add: schedule_post_cases schedule_thread_cases init_def Let_def example_post_def
        example_thread_def truthy_def)

subsection \<open>The firing callbacks\<close>

lemma publish_post_job_Inr: "fst (publish_post_job pub k st) = Inr ()"
  by (auto simp: publish_post_job_def publish_post_job_try_def
        split: option.splits prod.splits sum.splits)

lemma publish_thread_job_Inr: "fst (publish_thread_job pub k st) = Inr ()"
  by (auto simp: publish_thread_job_def publish_thread_job_try_def
        split: option.splits prod.splits sum.splits)

lemma run_job_Inr: "fst (run_job pub k st) = Inr ()"
  by (auto simp: run_job_def Let_def publish_post_job_Inr publish_thread_job_Inr
        split: option.splits prod.splits job_func.splits)

lemma example_order: "sorted_members (XThread.posts example_thread) = [1, 2, 0]"
  by (simp add: sorted_members_def example_thread_def example_member_def position_key_def upt_rec)

lemma example_thread_second_fails:
  "publish_thread (example_publisher [''second'']) example_thread [] =
     (False,
      example_thread\<lparr>XThread.posts :=
        [example_member ''third'' 3,
         (example_member ''first'' 1)\<lparr>x_post_id := Some ''x_first'', XPost.status := PUBLISHED\<rparr>,
         example_member ''second'' 2]\<rparr>,
      [\<lparr>tweet_text = ''first'', media = None, in_reply_to_tweet_id = None\<rparr>,
       \<lparr>tweet_text = ''second'', media = None, in_reply_to_tweet_id = Some ''x_first''\<rparr>])"
  by (simp add: publish_thread_def example_order publish_post_def Let_def truthy_def)
     (simp add: example_thread_def example_member_def example_publisher_def truthy_def)

lemma example_thread_all_succeed:
  "publish_thread (example_publisher []) example_thread [] =
     (True,
      example_thread\<lparr>XThread.posts :=
        [(example_member ''third'' 3)\<lparr>x_post_id := Some ''x_third'', XPost.status := PUBLISHED\<rparr>,
         (example_member ''first'' 1)\<lparr>x_post_id := Some ''x_first'', XPost.status := PUBLISHED\<rparr>,
         (example_member ''second'' 2)\<lparr>x_post_id := Some ''x_second'', XPost.status := PUBLISHED\<rparr>]\<rparr>,
      [\<lparr>tweet_text = ''first'', media = None, in_reply_to_tweet_id = None\<rparr>,
       \<lparr>tweet_text = ''second'', media = None, in_reply_to_tweet_id = Some ''x_first''\<rparr>,
       \<lparr>tweet_text = ''third'', media = None, in_reply_to_tweet_id = Some ''x_second''\<rparr>])"
  by (simp add: publish_thread_def example_order publish_post_def Let_def truthy_def)
     (simp add: example_thread_def example_member_def example_publisher_def truthy_def)

text \<open>
  C7. The firing callbacks, and the dispatcher step that runs them, return normally for every
  publisher, identifier and state. An unknown identifier leaves the state as it is; a post
  ends \<open>PUBLISHED\<close> or \<open>FAILED\<close>, and \<open>FAILED\<close> with nothing else changed when the publisher
  raises, answers without an identifier or answers with an empty one; a thread ends
  \<open>PUBLISHED\<close> or \<open>FAILED\<close>, and \<open>FAILED\<close> when \<open>publish_thread\<close> returns \<open>False\<close>.
\<close>

theorem callbacks_never_raise:
  "fst (publish_post_job pub k (s, calls)) = Inr () \<and>
   fst (publish_thread_job pub k (s, calls)) = Inr () \<and>
   fst (run_job pub k (s, calls)) = Inr () \<and>
   (posts s k = None \<longrightarrow> publish_post_job pub k (s, calls) = (Inr (), s, calls)) \<and>
   (threads s k = None \<longrightarrow> publish_thread_job pub k (s, calls) = (Inr (), s, calls)) \<and>
   (posts s k = Some p \<longrightarrow>
      (\<exists>p'. posts (fst (snd (publish_post_job pub k (s, calls)))) k = Some p' \<and>
            (XPost.status p' = PUBLISHED \<or> XPost.status p' = FAILED) \<and>
            ((\<forall>x. pub calls \<lparr>tweet_text = XPost.content p, media = media_urls p,
                             in_reply_to_tweet_id = None\<rparr> = Inr (Tweet x) \<longrightarrow> \<not> truthy x)
             \<longrightarrow> p' = p\<lparr>XPost.status := FAILED\<rparr>))) \<and>
   (threads s k = Some t \<longrightarrow>
      (\<exists>t'. threads (fst (snd (publish_thread_job pub k (s, calls)))) k = Some t' \<and>
            (XThread.status t' = PUBLISHED \<or> XThread.status t' = FAILED) \<and>
            (\<not> fst (publish_thread pub t calls) \<longrightarrow> XThread.status t' = FAILED)))"
proof -
  have a: "posts s k = None \<longrightarrow> publish_post_job pub k (s, calls) = (Inr (), s, calls)"
    by (simp add: publish_post_job_def publish_post_job_try_def)
  have b: "threads s k = None \<longrightarrow> publish_thread_job pub k (s, calls) = (Inr (), s, calls)"
    by (simp add: publish_thread_job_def publish_thread_job_try_def)
  have c: "posts s k = Some p \<longrightarrow>
      (\<exists>p'. posts (fst (snd (publish_post_job pub k (s, calls)))) k = Some p' \<and>
            (XPost.status p' = PUBLISHED \<or> XPost.status p' = FAILED) \<and>
            ((\<forall>x. pub calls \<lparr>tweet_text = XPost.content p, media = media_urls p,
                             in_reply_to_tweet_id = None\<rparr> = Inr (Tweet x) \<longrightarrow> \<not> truthy x)
             \<longrightarrow> p' = p\<lparr>XPost.status := FAILED\<rparr>))"
    by (auto simp: publish_post_job_def publish_post_job_try_def publish_post_def Let_def
          split: option.splits prod.splits sum.splits response.splits)
  have d: "threads s k = Some t \<longrightarrow>
      (\<exists>t'. threads (fst (snd (publish_thread_job pub k (s, calls)))) k = Some t' \<and>
            (XThread.status t' = PUBLISHED \<or> XThread.status t' = FAILED) \<and>
            (\<not> fst (publish_thread pub t calls) \<longrightarrow> XThread.status t' = FAILED))"
    by (auto simp: publish_thread_job_def publish_thread_job_try_def
          split: option.splits prod.splits sum.splits)
  from a b c d publish_post_job_Inr publish_thread_job_Inr run_job_Inr
  show ?thesis by blast
qed

theorem callbacks_never_raise_witness:
  "posts example_service ''zz'' = None \<and> threads example_service ''zz'' = None \<and>
   publish_post_job (example_publisher []) ''zz'' (example_service, []) = (Inr (), example_service, []) \<and>
   publish_thread_job (example_publisher []) ''zz'' (example_service, []) = (Inr (), example_service, []) \<and>
   posts example_service ''a'' = Some ((example_post ''a'' 10)\<lparr>XPost.status := SCHEDULED\<rparr>) \<and>
   fst (publish_post_job (example_publisher [''hello'']) ''a'' (example_service, [])) = Inr () \<and>
   posts (fst (snd (publish_post_job (example_publisher [''hello'']) ''a'' (example_service, [])))) ''a'' =
     Some ((example_post ''a'' 10)\<lparr>XPost.status := FAILED\<rparr>) \<and>
   threads example_service ''t'' = Some (example_thread\<lparr>XThread.status := SCHEDULED\<rparr>) \<and>
   \<not> fst (publish_thread (example_publisher [''second''])
            (example_thread\<lparr>XThread.status := SCHEDULED\<rparr>) []) \<and>
   fst (publish_thread_job (example_publisher [''second'']) ''t'' (example_service, [])) = Inr () \<and>
   map_option XThread.status
     (threads (fst (snd (publish_thread_job (example_publisher [''second'']) ''t'' (example_service, [])))) ''t'')
     = Some FAILED"
proof -
  let ?p = "(example_post ''a'' 10)\<lparr>XPost.status := SCHEDULED\<rparr>"
  let ?t = "example_thread\<lparr>XThread.status := SCHEDULED\<rparr>"
  have n: "posts example_service ''zz'' = None" "threads example_service ''zz'' = None"
    by (simp_all add: example_service_eq)
  have p: "posts example_service ''a'' = Some ?p"
    by (simp add: example_service_eq)
  have t: "threads example_service ''t'' = Some ?t"
    by (simp add: example_service_eq)
  have r: "\<forall>x. example_publisher [''hello''] []
             \<lparr>tweet_text = XPost.content ?p, media = media_urls ?p, in_reply_to_tweet_id = None\<rparr>
             = Inr (Tweet x) \<longrightarrow> \<not> truthy x"
    by (simp add: example_publisher_def example_post_def)
  have f: "\<not> fst (publish_thread (example_publisher [''second'']) ?t [])"
    by (simp add: publish_thread_def example_order publish_post_def Let_def truthy_def)
       (simp add: example_thread_def example_member_def example_publisher_def truthy_def)
  note A = callbacks_never_raise
         [where pub = "example_publisher []" and k = "''zz''" and s = example_service and calls = "[]"]
  note B = callbacks_never_raise
         [where pub = "example_publisher [''hello'']" and k = "''a''" and s = example_service
            and calls = "[]" and p = ?p]
  note C = callbacks_never_raise
         [where pub = "example_publisher [''second'']" and k = "''t''" and s = example_service
            and calls = "[]" and t = ?t]
  from A n have a:
    "publish_post_job (example_publisher []) ''zz'' (example_service, []) = (Inr (), example_service, [])"
    "publish_thread_job (example_publisher []) ''zz'' (example_service, []) = (Inr (), example_service, [])"
    by blast+
  from B p r have
    "\<exists>p'. posts (fst (snd (publish_post_job (example_publisher [''hello'']) ''a'' (example_service, [])))) ''a''
            = Some p' \<and> p' = ?p\<lparr>XPost.status := FAILED\<rparr>"
    by blast
  then have b:
    "posts (fst (snd (publish_post_job (example_publisher [''hello'']) ''a'' (example_service, [])))) ''a'' =
     Some ((example_post ''a'' 10)\<lparr>XPost.status := FAILED\<rparr>)"
    by auto
  from C t f have
    "\<exists>t'. threads (fst (snd (publish_thread_job (example_publisher [''second'']) ''t'' (example_service, [])))) ''t''
            = Some t' \<and> XThread.status t' = FAILED"
    by blast
  then have c:
    "map_option XThread.status
       (threads (fst (snd (publish_thread_job (example_publisher [''second'']) ''t'' (example_service, [])))) ''t'')
     = Some FAILED"
    by auto
  from B have b0: "fst (publish_post_job (example_publisher [''hello'']) ''a'' (example_service, [])) = Inr ()"
    by blast
  from C have c0: "fst (publish_thread_job (example_publisher [''second'']) ''t'' (example_service, [])) = Inr ()"
    by blast
  from n p t f a b c b0 c0 show ?thesis by simp
qed

subsection \<open>Validation of the content\<close>

lemma XPost_init_Inr: "XPost_init raw = Inr p \<Longrightarrow> p = raw \<and> length (XPost.content p) \<le> 280"
  by (auto simp: XPost_init_def validate_content_length_def split: if_splits)

lemma map_content_update:
  "map XPost.content (ps[i := (ps ! i)\<lparr>x_post_id := x, XPost.status := st\<rparr>]) = map XPost.content ps"
proof (cases "i < length ps")
  case True
  then show ?thesis by (simp add: map_update list_update_same_conv)
next
  case False
  then have "ps[i := (ps ! i)\<lparr>x_post_id := x, XPost.status := st\<rparr>] = ps"
    by (simp add: list_update_beyond)
  then show ?thesis by simp
qed

lemma publish_replies_content:
  "publish_replies pub ps is prev calls = (ok, ps', calls') \<Longrightarrow>
   map XPost.content ps' = map XPost.content ps"
proof (induction "is" arbitrary: ps prev calls)
  case Nil
  then show ?case by simp
next
  case (Cons i rest)
  show ?case
  proof (cases "pub calls \<lparr>tweet_text = XPost.content (ps ! i), media = media_urls (ps ! i),
                           in_reply_to_tweet_id = Some prev\<rparr>")
    case (Inl e)
    with Cons.prems show ?thesis by (simp add: Let_def)
  next
    case (Inr r)
    show ?thesis
    proof (cases r)
      case Unexpected
      with Inr Cons.prems show ?thesis by (simp add: Let_def)
    next
      case (Tweet x)
      with Inr Cons.prems have
        "publish_replies pub (ps[i := (ps ! i)\<lparr>x_post_id := Some x, XPost.status := PUBLISHED\<rparr>])
           rest x (calls @ [\<lparr>tweet_text = XPost.content (ps ! i), media = media_urls (ps ! i),
                           in_reply_to_tweet_id = Some prev\<rparr>]) = (ok, ps', calls')"
        by (simp add: Let_def)
      from Cons.IH [OF this] show ?thesis by (simp add: map_content_update)
    qed
  qed
qed

lemma publish_thread_content:
  "publish_thread pub t calls = (ok, t', calls') \<Longrightarrow>
   map XPost.content (XThread.posts t') = map XPost.content (XThread.posts t)"
  by (auto simp: publish_thread_def map_content_update
        split: list.splits prod.splits option.splits if_splits dest!: publish_replies_content)

lemma publish_post_job_content:
  "posts (fst (snd (publish_post_job pub a (s, calls)))) k = Some q \<Longrightarrow>
   \<exists>q0. posts s k = Some q0 \<and> XPost.content q = XPost.content q0"
  by (auto simp: publish_post_job_def publish_post_job_try_def
        split: option.splits prod.splits sum.splits if_splits)

lemma publish_post_job_threads:
  "threads (fst (snd (publish_post_job pub a (s, calls)))) = threads s"
  by (auto simp: publish_post_job_def publish_post_job_try_def
        split: option.splits prod.splits sum.splits)

lemma publish_thread_job_posts:
  "posts (fst (snd (publish_thread_job pub a (s, calls)))) = posts s"
  by (auto simp: publish_thread_job_def publish_thread_job_try_def
        split: option.splits prod.splits sum.splits)

lemma publish_thread_job_content:
  "threads (fst (snd (publish_thread_job pub a (s, calls)))) k = Some t' \<Longrightarrow>
   \<exists>t. threads s k = Some t \<and>
       map XPost.content (XThread.posts t') = map XPost.content (XThread.posts t)"
  by (auto simp: publish_thread_job_def publish_thread_job_try_def
        split: option.splits prod.splits sum.splits if_splits dest!: publish_thread_content)

lemma run_job_content:
  "posts (fst (snd (run_job pub j (s, calls)))) k = Some q \<Longrightarrow>
   \<exists>q0. posts s k = Some q0 \<and> XPost.content q = XPost.content q0"
  by (auto simp: run_job_def Let_def publish_thread_job_posts
        dest!: publish_post_job_content split: option.splits job_func.splits)

lemma run_job_thread_content:
  "threads (fst (snd (run_job pub j (s, calls)))) k = Some t' \<Longrightarrow>
   \<exists>t. threads s k = Some t \<and>
       map XPost.content (XThread.posts t') = map XPost.content (XThread.posts t)"
  by (auto simp: run_job_def Let_def publish_post_job_threads
        dest!: publish_thread_job_content split: option.splits job_func.splits)

lemma step_content_bounded:
  assumes "content_bounded s"
    and "\<And>f u p. op = SchedulePost f u p \<Longrightarrow> \<exists>raw. XPost_init raw = Inr p"
    and "\<And>f t m. op = ScheduleThread f t \<Longrightarrow> m \<in> set (XThread.posts t) \<Longrightarrow>
           \<exists>raw. XPost_init raw = Inr m"
  shows "content_bounded (fst (step pub op (s, calls)))"
proof (cases op)
  case (SchedulePost f u p)
  with assms(2) obtain raw where "XPost_init raw = Inr p" by blast
  then have "length (XPost.content p) \<le> 280" by (simp add: XPost_init_Inr)
  with assms(1) SchedulePost show ?thesis
    by (auto simp: content_bounded_def schedule_post_cases Let_def split: option.splits if_splits)
next
  case (ScheduleThread f t)
  have "length (XPost.content m) \<le> 280" if "m \<in> set (XThread.posts t)" for m
    using assms(3) [OF ScheduleThread that] by (auto dest: XPost_init_Inr)
  with assms(1) ScheduleThread show ?thesis
    by (auto simp: content_bounded_def schedule_thread_cases split: option.splits if_splits)
next
  case (CancelPost k)
  with assms(1) show ?thesis by (auto simp: content_bounded_def cancel_post_eq)
next
  case (CancelThread k)
  with assms(1) show ?thesis by (auto simp: content_bounded_def cancel_thread_eq)
next
  case (RunJob j)
  have "length (XPost.content q) \<le> 280"
    if "posts (fst (snd (run_job pub j (s, calls)))) k = Some q" for k q
    using run_job_content [OF that] assms(1) by (auto simp: content_bounded_def)
  moreover have "length c \<le> 280"
    if "threads (fst (snd (run_job pub j (s, calls)))) k = Some t'"
      and "c \<in> set (map XPost.content (XThread.posts t'))" for k t' c
  proof -
    from run_job_thread_content [OF that(1)] obtain t where
      "threads s k = Some t"
      "map XPost.content (XThread.posts t') = map XPost.content (XThread.posts t)"
      by blast
    with that(2) assms(1) show ?thesis unfolding content_bounded_def by metis
  qed
  ultimately show ?thesis using RunJob unfolding content_bounded_def by simp
qed

lemma run_content_bounded:
  "content_bounded (fst st) \<Longrightarrow>
   \<forall>f u p. SchedulePost f u p \<in> set ops \<longrightarrow> (\<exists>raw. XPost_init raw = Inr p) \<Longrightarrow>
   \<forall>f t m. ScheduleThread f t \<in> set ops \<and> m \<in> set (XThread.posts t) \<longrightarrow>
      (\<exists>raw. XPost_init raw = Inr m) \<Longrightarrow>
   content_bounded (fst (run pub ops st))"
proof (induction ops arbitrary: st)
  case Nil
  then show ?case by simp
next
  case (Cons op ops)
  obtain s calls where st: "st = (s, calls)" by (cases st)
  have "content_bounded (fst (step pub op (s, calls)))"
  proof (rule step_content_bounded)
    show "content_bounded s" using Cons.prems(1) st by simp
    show "\<exists>raw. XPost_init raw = Inr p" if "op = SchedulePost f u p" for f u p
      using Cons.prems(2) that by auto
    show "\<exists>raw. XPost_init raw = Inr m"
      if "op = ScheduleThread f t" "m \<in> set (XThread.posts t)" for f t m
      using Cons.prems(3) that by auto
  qed
  moreover have "\<forall>f u p. SchedulePost f u p \<in> set ops \<longrightarrow> (\<exists>raw. XPost_init raw = Inr p)"
    using Cons.prems(2) by auto
  moreover have "\<forall>f t m. ScheduleThread f t \<in> set ops \<and> m \<in> set (XThread.posts t) \<longrightarrow>
      (\<exists>raw. XPost_init raw = Inr m)"
    using Cons.prems(3) by auto
  ultimately have "content_bounded (fst (run pub ops (step pub op (s, calls))))"
    by (rule Cons.IH)
  then show ?case by (simp add: st)
qed

text \<open>
  C9. Constructing a post whose content has more than 280 characters raises \<open>ValueError\<close>;
  content of at most 280 characters passes the validator unchanged and the post is
  constructed as given. In every run of the service in which the posts and the thread
  members submitted are constructed posts, every post in the registry, and every member of a
  registered thread, has at most 280 characters.
\<close>

theorem overlength_content_rejected:
  "(length (XPost.content raw) > 280 \<longrightarrow>
      validate_content_length (XPost.content raw) = Inl ValueError \<and>
      XPost_init raw = Inl ValueError) \<and>
   (length (XPost.content raw) \<le> 280 \<longrightarrow>
      validate_content_length (XPost.content raw) = Inr (XPost.content raw) \<and>
      XPost_init raw = Inr raw) \<and>
   ((\<forall>f u p. SchedulePost f u p \<in> set ops \<longrightarrow> (\<exists>r. XPost_init r = Inr p)) \<and>
    (\<forall>f t m. ScheduleThread f t \<in> set ops \<and> m \<in> set (XThread.posts t) \<longrightarrow>
       (\<exists>r. XPost_init r = Inr m)) \<longrightarrow>
      (\<forall>k q. posts (fst (run pub ops (init mx, []))) k = Some q \<longrightarrow>
             length (XPost.content q) \<le> 280) \<and>
      (\<forall>k t m. threads (fst (run pub ops (init mx, []))) k = Some t \<and> m \<in> set (XThread.posts t) \<longrightarrow>
             length (XPost.content m) \<le> 280))"
proof -
  have a: "length (XPost.content raw) > 280 \<longrightarrow>
      validate_content_length (XPost.content raw) = Inl ValueError \<and>
      XPost_init raw = Inl ValueError"
    by (simp add: XPost_init_def validate_content_length_def)
  have b: "length (XPost.content raw) \<le> 280 \<longrightarrow>
      validate_content_length (XPost.content raw) = Inr (XPost.content raw) \<and>
      XPost_init raw = Inr raw"
    by (simp add: XPost_init_def validate_content_length_def)
  have c: "(\<forall>k q. posts (fst (run pub ops (init mx, []))) k = Some q \<longrightarrow>
             length (XPost.content q) \<le> 280) \<and>
      (\<forall>k t m. threads (fst (run pub ops (init mx, []))) k = Some t \<and> m \<in> set (XThread.posts t) \<longrightarrow>
             length (XPost.content m) \<le> 280)"
    if h: "\<forall>f u p. SchedulePost f u p \<in> set ops \<longrightarrow> (\<exists>r. XPost_init r = Inr p)"
      and g: "\<forall>f t m. ScheduleThread f t \<in> set ops \<and> m \<in> set (XThread.posts t) \<longrightarrow>
       (\<exists>r. XPost_init r = Inr m)"
  proof -
    have "content_bounded (fst (init mx, []))"
      by (simp add: content_bounded_def init_def)
    then have "content_bounded (fst (run pub ops (init mx, [])))"
      using h g by (rule run_content_bounded)
    then show ?thesis by (auto simp: content_bounded_def)
  qed
  from a b c show ?thesis by blast
qed

theorem overlength_content_rejected_witness:
  "length (XPost.content long_post) > 280 \<and> XPost_init long_post = Inl ValueError \<and>
   length (XPost.content (example_post ''a'' 10)) \<le> 280 \<and>
   XPost_init (example_post ''a'' 10) = Inr (example_post ''a'' 10) \<and>
   posts (fst (run (example_publisher []) example_run (init 500, []))) ''a'' =
     Some ((example_post ''a'' 10)\<lparr>XPost.status := SCHEDULED\<rparr>) \<and>
   length (XPost.content ((example_post ''a'' 10)\<lparr>XPost.status := SCHEDULED\<rparr>)) \<le> 280 \<and>
   threads (fst (run (example_publisher []) example_run (init 500, []))) ''t'' =
     Some (example_thread\<lparr>XThread.status := SCHEDULED\<rparr>) \<and>
   example_member ''first'' 1 \<in> set (XThread.posts (example_thread\<lparr>XThread.status := SCHEDULED\<rparr>)) \<and>
   length (XPost.content (example_member ''first'' 1)) \<le> 280"
proof -
  let ?s = "fst (run (example_publisher []) example_run (init 500, []))"
  have l: "length (XPost.content long_post) > 280"
    by (simp add: long_post_def)
  have s: "length (XPost.content (example_post ''a'' 10)) \<le> 280"
    by (simp add: example_post_def)
  have i: "XPost_init (example_post ''a'' 10) = Inr (example_post ''a'' 10)"
    using overlength_content_rejected [where raw = "example_post ''a'' 10"] s by blast
  have m: "XPost_init (example_member c n) = Inr (example_member c n)" if "length c \<le> 280" for c n
    using overlength_content_rejected [where raw = "example_member c n"] that
    by (simp add: example_member_def)
  have h: "\<forall>f u p. SchedulePost f u p \<in> set example_run \<longrightarrow> (\<exists>r. XPost_init r = Inr p)"
    using i by (auto simp: example_run_def)
  have g: "\<forall>f t m. ScheduleThread f t \<in> set example_run \<and> m \<in> set (XThread.posts t) \<longrightarrow>
      (\<exists>r. XPost_init r = Inr m)"
    using m [of "''third''" 3] m [of "''first''" 1] m [of "''second''" 2]
    by (auto simp: example_run_def example_thread_def)
  from overlength_content_rejected [where raw = long_post] l
  have r: "XPost_init long_post = Inl ValueError" by blast
  have e: "?s = example_service"
    by (simp add: example_run_def example_service_def)
  have p: "posts ?s ''a'' = Some ((example_post ''a'' 10)\<lparr>XPost.status := SCHEDULED\<rparr>)"
    by (simp only: e) (simp add: example_service_eq)
  have t: "threads ?s ''t'' = Some (example_thread\<lparr>XThread.status := SCHEDULED\<rparr>)"
    by (simp only: e) (simp add: example_service_eq)
  have mem: "example_member ''first'' 1 \<in> set (XThread.posts (example_thread\<lparr>XThread.status := SCHEDULED\<rparr>))"
    by (simp add: example_thread_def)
  note C = overlength_content_rejected
         [where ops = example_run and pub = "example_publisher []" and mx = 500]
  from C h g p have c1: "length (XPost.content ((example_post ''a'' 10)\<lparr>XPost.status := SCHEDULED\<rparr>)) \<le> 280"
    by blast
  from C h g t mem have c2: "length (XPost.content (example_member ''first'' 1)) \<le> 280"
    by blast
  from l s i r p t mem c1 c2 show ?thesis by blast
qed

subsection \<open>Scheduling the same identifier again\<close>

lemma update_filter_key:
  "distinct (map fst al) \<Longrightarrow>
   filter (\<lambda>(j, _). j = k) (AList.update k v al) = [(k, v)]"
proof (induction al)
  case Nil
  then show ?case by simp
next
  case (Cons a al)
  obtain j w where a: "a = (j, w)" by (cases a)
  show ?case
  proof (cases "j = k")
    case True
    with Cons.prems a have "k \<notin> fst ` set al" by auto
    then have "filter (\<lambda>(j, _). j = k) al = []"
      by (force simp: filter_empty_conv)
    with True a show ?thesis by simp
  next
    case False
    with Cons a show ?thesis by simp
  qed
qed

lemma update_length:
  "length (AList.update k v al) = (if k \<in> fst ` set al then length al else Suc (length al))"
  by (induction al) auto

lemma admitted_post_trigger:
  assumes "distinct (map fst (scheduler s))"
    and "XPost.id post = Some k" and "truthy k"
    and "fst (schedule_post fault uuid post s)"
  shows
   "filter (\<lambda>(j, _). j = ''post_'' @ k) (scheduler (snd (schedule_post fault uuid post s))) =
      [(''post_'' @ k, \<lparr>func = PublishPostJob, run_date = XPost.scheduled_date post, args = k\<rparr>)] \<and>
    distinct (map fst (scheduler (snd (schedule_post fault uuid post s)))) \<and>
    (map_of (scheduler s) (''post_'' @ k) \<noteq> None \<longrightarrow>
       length (scheduler (snd (schedule_post fault uuid post s))) = length (scheduler s)) \<and>
    (\<forall>j. j \<noteq> ''post_'' @ k \<longrightarrow>
       map_of (scheduler (snd (schedule_post fault uuid post s))) j = map_of (scheduler s) j) \<and>
    (\<forall>now. (''post_'' @ k \<in> fst ` set (due_jobs now (scheduler (snd (schedule_post fault uuid post s)))))
           = (XPost.scheduled_date post \<le> now))"
proof -
  let ?j = "\<lparr>func = PublishPostJob, run_date = XPost.scheduled_date post, args = k\<rparr>"
  let ?js = "scheduler (snd (schedule_post fault uuid post s))"
  from assms(2,3,4) have js: "?js = AList.update (''post_'' @ k) ?j (scheduler s)"
    by (auto simp: schedule_post_cases Let_def split: if_splits option.splits)
  have f: "filter (\<lambda>(j, _). j = ''post_'' @ k) ?js = [(''post_'' @ k, ?j)]"
    unfolding js using assms(1) by (rule update_filter_key)
  have d: "distinct (map fst ?js)"
    unfolding js using assms(1) by (rule AList.distinct_update)
  have l: "map_of (scheduler s) (''post_'' @ k) \<noteq> None \<longrightarrow> length ?js = length (scheduler s)"
    unfolding js by (auto simp: update_length map_of_eq_None_iff)
  have m: "\<forall>j. j \<noteq> ''post_'' @ k \<longrightarrow> map_of ?js j = map_of (scheduler s) j"
    unfolding js by (simp add: AList.update_conv')
  have due: "(''post_'' @ k \<in> fst ` set (due_jobs now ?js)) = (XPost.scheduled_date post \<le> now)" for now
  proof -
    have "(''post_'' @ k \<in> fst ` set (due_jobs now ?js)) =
          (\<exists>x \<in> set (filter (\<lambda>(j, _). j = ''post_'' @ k) ?js). run_date (snd x) \<le> now)"
      by (auto simp: due_jobs_def image_iff)
    also have "\<dots> = (XPost.scheduled_date post \<le> now)"
      by (simp only: f) simp
    finally show ?thesis .
  qed
  from f d l m due show ?thesis by blast
qed

lemma step_distinct_jobs:
  "distinct (map fst (scheduler s)) \<Longrightarrow> distinct (map fst (scheduler (fst (step pub op (s, calls)))))"
proof (cases op)
  case (SchedulePost f u p)
  assume "distinct (map fst (scheduler s))"
  with SchedulePost show ?thesis
    by (auto simp: schedule_post_cases Let_def AList.distinct_update split: option.splits)
next
  case (ScheduleThread f t)
  assume "distinct (map fst (scheduler s))"
  with ScheduleThread show ?thesis
    by (auto simp: schedule_thread_cases AList.distinct_update split: option.splits)
next
  case (CancelPost k)
  assume "distinct (map fst (scheduler s))"
  with CancelPost show ?thesis by (simp add: cancel_post_eq AList.distinct_delete)
next
  case (CancelThread k)
  assume "distinct (map fst (scheduler s))"
  with CancelThread show ?thesis by (simp add: cancel_thread_eq AList.distinct_delete)
next
  case (RunJob j)
  assume "distinct (map fst (scheduler s))"
  with RunJob show ?thesis by (simp add: run_job_scheduler AList.distinct_delete)
qed

lemma run_distinct_jobs:
  "distinct (map fst (scheduler (fst st))) \<Longrightarrow>
   distinct (map fst (scheduler (fst (run pub ops st))))"
proof (induction ops arbitrary: st)
  case Nil
  then show ?case by simp
next
  case (Cons op ops)
  obtain s calls where st: "st = (s, calls)" by (cases st)
  from Cons.prems st have "distinct (map fst (scheduler (fst (step pub op st))))"
    by (simp add: step_distinct_jobs)
  from Cons.IH [OF this] show ?case by simp
qed

lemma example_service_run:
  "example_service =
     fst (run (example_publisher [])
            [SchedulePost None ''u'' (example_post ''a'' 10), ScheduleThread None example_thread]
            (init 500, []))"
  by (simp add: example_service_def)

text \<open>
  C10, as the code has it. In every state that a run of the service reaches, a call of
  \<open>schedule_post\<close> with a post that has an identifier, when it is admitted (it returns
  \<open>True\<close>), leaves exactly one trigger for that identifier, the one with the fire time of
  this call; the identifiers of the store are distinct; a trigger that was pending for the
  identifier is replaced (the store keeps its length) and the other triggers are as before;
  and the job is due exactly from the new fire time on.
\<close>

theorem reschedule_replaces_trigger:
  assumes "s = fst (run pub ops (init mx, []))"
    and "XPost.id post = Some k" and "truthy k"
    and "fst (schedule_post fault uuid post s)"
  shows
   "filter (\<lambda>(j, _). j = ''post_'' @ k) (scheduler (snd (schedule_post fault uuid post s))) =
      [(''post_'' @ k, \<lparr>func = PublishPostJob, run_date = XPost.scheduled_date post, args = k\<rparr>)] \<and>
    distinct (map fst (scheduler (snd (schedule_post fault uuid post s)))) \<and>
    (map_of (scheduler s) (''post_'' @ k) \<noteq> None \<longrightarrow>
       length (scheduler (snd (schedule_post fault uuid post s))) = length (scheduler s)) \<and>
    (\<forall>j. j \<noteq> ''post_'' @ k \<longrightarrow>
       map_of (scheduler (snd (schedule_post fault uuid post s))) j = map_of (scheduler s) j) \<and>
    (\<forall>now. (''post_'' @ k \<in> fst ` set (due_jobs now (scheduler (snd (schedule_post fault uuid post s)))))
           = (XPost.scheduled_date post \<le> now))"
proof -
  have "distinct (map fst (scheduler (fst (init mx, []::request list))))"
    by (simp add: init_def)
  then have "distinct (map fst (scheduler s))"
    unfolding assms(1) by (rule run_distinct_jobs)
  from admitted_post_trigger [OF this assms(2,3,4)] show ?thesis .
qed

theorem reschedule_replaces_trigger_witness:
  "example_service =
     fst (run (example_publisher [])
            [SchedulePost None ''u'' (example_post ''a'' 10), ScheduleThread None example_thread]
            (init 500, [])) \<and>
   XPost.id (example_post ''a'' 20) = Some ''a'' \<and> truthy ''a'' \<and>
   map_of (scheduler example_service) ''post_a'' =
     Some \<lparr>func = PublishPostJob, run_date = 10, args = ''a''\<rparr> \<and>
   fst (schedule_post None ''u'' (example_post ''a'' 20) example_service) \<and>
   filter (\<lambda>(j, _). j = ''post_a'')
     (scheduler (snd (schedule_post None ''u'' (example_post ''a'' 20) example_service))) =
     [(''post_a'', \<lparr>func = PublishPostJob, run_date = 20, args = ''a''\<rparr>)] \<and>
   length (scheduler (snd (schedule_post None ''u'' (example_post ''a'' 20) example_service))) = 2 \<and>
   (''post_a'' \<in> fst ` set (due_jobs 15
       (scheduler (snd (schedule_post None ''u'' (example_post ''a'' 20) example_service))))) = False \<and>
   (''post_a'' \<in> fst ` set (due_jobs 20
       (scheduler (snd (schedule_post None ''u'' (example_post ''a'' 20) example_service))))) = True"
proof -
  have d: "distinct (map fst (scheduler example_service))"
    by (simp add: example_service_eq)
  have i: "XPost.id (example_post ''a'' 20) = Some ''a''"
    by (simp add: example_post_def)
  have t: "truthy ''a''" by (simp add: truthy_def)
  have j: "map_of (scheduler example_service) (''post_'' @ ''a'') =
     Some \<lparr>func = PublishPostJob, run_date = 10, args = ''a''\<rparr>"
    by (simp add: example_service_eq)
  have a: "fst (schedule_post None ''u'' (example_post ''a'' 20) example_service)"
    by (simp add: schedule_post_cases example_service_eq Let_def)
  have l: "length (scheduler example_service) = 2"
    by (simp add: example_service_eq)
  have sd: "XPost.scheduled_date (example_post ''a'' 20) = 20"
    by (simp add: example_post_def)
  note R = reschedule_replaces_trigger [OF example_service_run i t a]
  from R j l have len:
    "length (scheduler (snd (schedule_post None ''u'' (example_post ''a'' 20) example_service))) = 2"
    by simp
  from R sd have due:
    "(''post_a'' \<in> fst ` set (due_jobs 15
       (scheduler (snd (schedule_post None ''u'' (example_post ''a'' 20) example_service))))) = False"
    "(''post_a'' \<in> fst ` set (due_jobs 20
       (scheduler (snd (schedule_post None ''u'' (example_post ''a'' 20) example_service))))) = True"
    by simp_all
  from R sd have f:
    "filter (\<lambda>(j, _). j = ''post_a'')
     (scheduler (snd (schedule_post None ''u'' (example_post ''a'' 20) example_service))) =
     [(''post_a'', \<lparr>func = PublishPostJob, run_date = 20, args = ''a''\<rparr>)]"
    by simp
  from example_service_run i t j a f len due show ?thesis by simp
qed

text \<open>
  C10 as stated fails when the counter has reached the ceiling: with ceiling 1 the post
  \<open>a\<close> is admitted for instant 10, the second call for instant 20 is refused, and the
  trigger for instant 10 stays and is due at instant 15.
\<close>

theorem reschedule_refused_at_ceiling:
  "fst (schedule_post None ''u'' (example_post ''a'' 10) (init 1)) \<and>
   scheduler (snd (schedule_post None ''u'' (example_post ''a'' 10) (init 1))) =
     [(''post_a'', \<lparr>func = PublishPostJob, run_date = 10, args = ''a''\<rparr>)] \<and>
   \<not> fst (schedule_post None ''u'' (example_post ''a'' 20)
            (snd (schedule_post None ''u'' (example_post ''a'' 10) (init 1)))) \<and>
   scheduler (snd (schedule_post None ''u'' (example_post ''a'' 20)
                     (snd (schedule_post None ''u'' (example_post ''a'' 10) (init 1))))) =
     [(''post_a'', \<lparr>func = PublishPostJob, run_date = 10, args = ''a''\<rparr>)] \<and>
   due_jobs 15 (scheduler (snd (schedule_post None ''u'' (example_post ''a'' 20)
                     (snd (schedule_post None ''u'' (example_post ''a'' 10) (init 1)))))) =
     [(''post_a'', \<lparr>func = PublishPostJob, run_date = 10, args = ''a''\<rparr>)]"
  by (simp add: schedule_post_cases init_def Let_def example_post_def truthy_def due_jobs_def)

subsection \<open>Publication of a thread\<close>

lemma succeeded_iff: "succeeded r = (\<exists>x. r = Inr (Tweet x))"
  by (auto simp: succeeded_def split: sum.splits response.splits)

lemma outcome_Nil: "thread_outcome pub ps [] calls True ps [] 0"
  by (simp add: thread_outcome_def)

lemma outcome_fail:
  assumes "\<not> succeeded (pub calls req)"
    and "tweet_text req = XPost.content (ps ! i)" and "media req = media_urls (ps ! i)"
  shows "thread_outcome pub ps (i # rest) calls False ps [req] 0"
  using assms by (simp add: thread_outcome_def)

lemma outcome_step:
  assumes r: "pub calls req = Inr (Tweet x)"
    and tx: "tweet_text req = XPost.content (ps ! i)" "media req = media_urls (ps ! i)"
    and i: "i < length ps" "i \<notin> set rest"
    and tail: "thread_outcome pub (ps[i := (ps ! i)\<lparr>x_post_id := Some x, XPost.status := PUBLISHED\<rparr>])
                 rest (calls @ [req]) ok ps' reqs m"
  shows "thread_outcome pub ps (i # rest) calls ok ps' (req # reqs) (Suc m)"
proof -
  let ?u = "(ps ! i)\<lparr>x_post_id := Some x, XPost.status := PUBLISHED\<rparr>"
  let ?ps1 = "ps[i := ?u]"
  from tail have len: "length ps' = length ps" and m: "m \<le> length rest"
    and lr: "length reqs = (if ok then m else Suc m)"
    and okm: "ok \<longrightarrow> m = length rest"
    and nok: "\<not> ok \<longrightarrow> m < length rest \<and> \<not> succeeded (pub ((calls @ [req]) @ take m reqs) (reqs ! m))"
    and pubd: "\<forall>j<m. \<exists>y. pub ((calls @ [req]) @ take j reqs) (reqs ! j) = Inr (Tweet y) \<and>
                 ps' ! (rest ! j) = (?ps1 ! (rest ! j))\<lparr>x_post_id := Some y, XPost.status := PUBLISHED\<rparr>"
    and txs: "\<forall>j<length reqs. tweet_text (reqs ! j) = XPost.content (?ps1 ! (rest ! j)) \<and>
                        media (reqs ! j) = media_urls (?ps1 ! (rest ! j))"
    and same: "\<forall>k<length ps. k \<notin> set (take m rest) \<longrightarrow> ps' ! k = ?ps1 ! k"
    by (simp_all add: thread_outcome_def)
  have cont: "XPost.content (?ps1 ! k) = XPost.content (ps ! k) \<and> media_urls (?ps1 ! k) = media_urls (ps ! k)" for k
    using i(1) by (cases "k = i") simp_all
  have inot: "i \<notin> set (take m rest)"
    using i(2) by (auto dest: in_set_takeD)
  have c5: "\<not> ok \<longrightarrow> Suc m < length (i # rest) \<and>
             \<not> succeeded (pub (calls @ take (Suc m) (req # reqs)) ((req # reqs) ! Suc m))"
    using nok by simp
  have c6: "\<exists>y. pub (calls @ take j (req # reqs)) ((req # reqs) ! j) = Inr (Tweet y) \<and>
               ps' ! ((i # rest) ! j) = (ps ! ((i # rest) ! j))\<lparr>x_post_id := Some y, XPost.status := PUBLISHED\<rparr>"
    if "j < Suc m" for j
  proof (cases j)
    case 0
    from same i(1) inot have "ps' ! i = ?ps1 ! i" by simp
    with i(1) have "ps' ! i = ?u" by simp
    with r 0 show ?thesis by simp
  next
    case (Suc j')
    with that have j': "j' < m" by simp
    with pubd obtain y where y: "pub ((calls @ [req]) @ take j' reqs) (reqs ! j') = Inr (Tweet y)"
      "ps' ! (rest ! j') = (?ps1 ! (rest ! j'))\<lparr>x_post_id := Some y, XPost.status := PUBLISHED\<rparr>"
      by blast
    from j' m have "rest ! j' \<in> set rest" by simp
    with i(2) have "rest ! j' \<noteq> i" by auto
    then have "?ps1 ! (rest ! j') = ps ! (rest ! j')" by simp
    with y Suc show ?thesis by simp
  qed
  have c7: "tweet_text ((req # reqs) ! j) = XPost.content (ps ! ((i # rest) ! j)) \<and>
            media ((req # reqs) ! j) = media_urls (ps ! ((i # rest) ! j))"
    if "j < length (req # reqs)" for j
  proof (cases j)
    case 0
    with tx show ?thesis by simp
  next
    case (Suc j')
    with that have "j' < length reqs" by simp
    with txs cont Suc show ?thesis by simp
  qed
  have c8: "ps' ! k = ps ! k" if "k < length ps" "k \<notin> set (take (Suc m) (i # rest))" for k
  proof -
    from that(2) have "k \<noteq> i" "k \<notin> set (take m rest)" by simp_all
    with same that(1) show ?thesis by simp
  qed
  show ?thesis
    unfolding thread_outcome_def
    using len m lr okm c5 c6 c7 c8 by simp
qed

lemma publish_replies_outcome:
  assumes "distinct is" and "\<forall>i\<in>set is. i < length ps"
    and "publish_replies pub ps is prev calls = (ok, ps', calls')"
  shows "\<exists>m reqs. calls' = calls @ reqs \<and> thread_outcome pub ps is calls ok ps' reqs m"
  using assms
proof (induction "is" arbitrary: ps prev calls)
  case Nil
  then show ?case using outcome_Nil [of pub ps calls] by auto
next
  case (Cons i rest)
  let ?req = "\<lparr>tweet_text = XPost.content (ps ! i), media = media_urls (ps ! i),
               in_reply_to_tweet_id = Some prev\<rparr>"
  show ?case
  proof (cases "succeeded (pub calls ?req)")
    case False
    then have "publish_replies pub ps (i # rest) prev calls = (False, ps, calls @ [?req])"
      by (auto simp: Let_def succeeded_def split: sum.splits response.splits)
    with Cons.prems(3) have "ok = False" "ps' = ps" "calls' = calls @ [?req]" by simp_all
    moreover have "thread_outcome pub ps (i # rest) calls False ps [?req] 0"
      using False by (intro outcome_fail) simp_all
    ultimately show ?thesis by blast
  next
    case True
    then obtain x where x: "pub calls ?req = Inr (Tweet x)" by (auto simp: succeeded_iff)
    let ?ps1 = "ps[i := (ps ! i)\<lparr>x_post_id := Some x, XPost.status := PUBLISHED\<rparr>]"
    from x Cons.prems(3) have rec: "publish_replies pub ?ps1 rest x (calls @ [?req]) = (ok, ps', calls')"
      by (simp add: Let_def)
    from Cons.prems(1) have d: "distinct rest" "i \<notin> set rest" by simp_all
    from Cons.prems(2) have b: "\<forall>k\<in>set rest. k < length ?ps1" "i < length ps" by simp_all
    from Cons.IH [OF d(1) b(1) rec] obtain m reqs where
      t: "calls' = (calls @ [?req]) @ reqs" "thread_outcome pub ?ps1 rest (calls @ [?req]) ok ps' reqs m"
      by blast
    have "thread_outcome pub ps (i # rest) calls ok ps' (?req # reqs) (Suc m)"
      using x _ _ b(2) d(2) t(2) by (rule outcome_step) simp_all
    with t(1) show ?thesis by auto
  qed
qed

lemma map_insort_key:
  "map g (insort_key (\<lambda>i. f (g i)) x xs) = insort_key f (g x) (map g xs)"
  by (induction xs) simp_all

lemma map_sort_key:
  "map g (sort_key (\<lambda>i. f (g i)) xs) = sort_key f (map g xs)"
  by (induction xs) (simp_all add: map_insort_key)

lemma members_in_order_sorted: "members_in_order t = sort_key position_key (XThread.posts t)"
  using map_sort_key [of "(!) (XThread.posts t)" position_key "[0..<length (XThread.posts t)]"]
  by (simp add: members_in_order_def sorted_members_def map_nth)

lemma sorted_members_props:
  "length (sorted_members ps) = length ps"
  "distinct (sorted_members ps)"
  "set (sorted_members ps) = {0..<length ps}"
  by (simp_all add: sorted_members_def)

lemma members_in_order_permuted:
  assumes "mset ps = mset (XThread.posts t)" and "distinct (map position_key ps)"
  shows "members_in_order (t\<lparr>XThread.posts := ps\<rparr>) = members_in_order t"
proof -
  have "mset ps = mset (sort_key position_key (XThread.posts t))"
    using assms(1) by simp
  moreover have "inj_on position_key (set ps)"
    using assms(2) by (simp add: distinct_map)
  moreover have "sorted (map position_key (sort_key position_key (XThread.posts t)))"
    by simp
  ultimately have "sort_key position_key ps = sort_key position_key (XThread.posts t)"
    by (rule sort_key_inj_key_eq)
  then show ?thesis by (simp add: members_in_order_sorted)
qed

lemma nth_not_in_take:
  assumes "distinct xs" and "j < length xs" and "m \<le> j"
  shows "xs ! j \<notin> set (take m xs)"
proof
  assume "xs ! j \<in> set (take m xs)"
  then obtain i where i: "i < length (take m xs)" "take m xs ! i = xs ! j"
    by (auto simp: in_set_conv_nth)
  then have "i < m" "i < length xs" "xs ! i = xs ! j" by simp_all
  with assms(1,2) have "i = j" by (simp add: nth_eq_iff_index_eq)
  with \<open>i < m\<close> assms(3) show False by simp
qed

lemma publish_thread_outcome:
  assumes ne: "XThread.posts t \<noteq> []"
    and ids: "\<forall>cs r x. pub cs r = Inr (Tweet x) \<longrightarrow> truthy x"
    and run: "publish_thread pub t calls = (ok, t', calls')"
  shows "\<exists>m reqs. calls' = calls @ reqs \<and> t' = t\<lparr>XThread.posts := XThread.posts t'\<rparr> \<and>
           thread_outcome pub (XThread.posts t) (sorted_members (XThread.posts t)) calls ok
             (XThread.posts t') reqs m"
proof -
  let ?ps = "XThread.posts t"
  from ne have "sorted_members ?ps \<noteq> []"
    using sorted_members_props(1) [of ?ps] by auto
  then obtain first rest where order: "sorted_members ?ps = first # rest"
    by (cases "sorted_members ?ps") auto
  from sorted_members_props(2,3) [of ?ps] order
  have d: "distinct rest" "first \<notin> set rest" and b: "first < length ?ps" "\<forall>k\<in>set rest. k < length ?ps"
    by (auto simp: set_eq_iff) 
  let ?req = "\<lparr>tweet_text = XPost.content (?ps ! first), media = media_urls (?ps ! first),
               in_reply_to_tweet_id = None\<rparr>"
  show ?thesis
  proof (cases "succeeded (pub calls ?req)")
    case False
    then have "publish_post pub (?ps ! first) calls = (None, calls @ [?req])"
      by (auto simp: publish_post_def Let_def succeeded_def split: sum.splits response.splits)
    with run order have "ok = False" "t' = t" "calls' = calls @ [?req]"
      by (auto simp: publish_thread_def)
    moreover have "thread_outcome pub ?ps (first # rest) calls False ?ps [?req] 0"
      using False by (intro outcome_fail) simp_all
    ultimately show ?thesis using order by auto
  next
    case True
    then obtain x where x: "pub calls ?req = Inr (Tweet x)" by (auto simp: succeeded_iff)
    with ids have tr: "truthy x" by blast
    let ?ps1 = "?ps[first := (?ps ! first)\<lparr>x_post_id := Some x, XPost.status := PUBLISHED\<rparr>]"
    from x have pp: "publish_post pub (?ps ! first) calls = (Some x, calls @ [?req])"
      by (simp add: publish_post_def Let_def)
    obtain ok2 ps2 calls2 where rec:
      "publish_replies pub ?ps1 rest x (calls @ [?req]) = (ok2, ps2, calls2)"
      by (cases "publish_replies pub ?ps1 rest x (calls @ [?req])") auto
    with run order pp tr have res: "ok = ok2" "t' = t\<lparr>XThread.posts := ps2\<rparr>" "calls' = calls2"
      by (auto simp: publish_thread_def)
    from b(2) have b1: "\<forall>k\<in>set rest. k < length ?ps1" by simp
    from publish_replies_outcome [OF d(1) b1 rec] obtain m reqs where
      t: "calls2 = (calls @ [?req]) @ reqs" "thread_outcome pub ?ps1 rest (calls @ [?req]) ok2 ps2 reqs m"
      by blast
    have "thread_outcome pub ?ps (first # rest) calls ok2 ps2 (?req # reqs) (Suc m)"
      using x _ _ b(1) d(2) t(2) by (rule outcome_step) simp_all
    with t(1) res order show ?thesis by auto
  qed
qed

lemma publish_thread_job_eq:
  assumes "threads s tid = Some t"
  shows "publish_thread_job pub tid (s, calls) =
     (case publish_thread pub t calls of
        (ok, t1, calls1) \<Rightarrow>
          (Inr (), s\<lparr>threads := (threads s)(tid \<mapsto> t1\<lparr>XThread.status := (if ok then PUBLISHED else FAILED)\<rparr>)\<rparr>,
           calls1))"
  using assms
  by (simp add: publish_thread_job_def publish_thread_job_try_def split: prod.splits)

lemma thread_job_outcome:
  assumes reg: "threads s tid = Some t"
    and ne: "XThread.posts t \<noteq> []"
    and ids: "\<forall>cs r x. pub cs r = Inr (Tweet x) \<longrightarrow> truthy x"
  shows "\<exists>ok ps' reqs m.
           publish_thread_job pub tid (s, calls) =
             (Inr (),
              s\<lparr>threads := (threads s)(tid \<mapsto>
                   t\<lparr>XThread.posts := ps', XThread.status := (if ok then PUBLISHED else FAILED)\<rparr>)\<rparr>,
              calls @ reqs) \<and>
           thread_outcome pub (XThread.posts t) (sorted_members (XThread.posts t)) calls ok ps' reqs m"
proof -
  obtain ok t' calls' where run: "publish_thread pub t calls = (ok, t', calls')"
    by (cases "publish_thread pub t calls") auto
  from publish_thread_outcome [OF ne ids run] obtain m reqs where
    o: "calls' = calls @ reqs" "t' = t\<lparr>XThread.posts := XThread.posts t'\<rparr>"
       "thread_outcome pub (XThread.posts t) (sorted_members (XThread.posts t)) calls ok
          (XThread.posts t') reqs m"
    by blast
  from o(2) have "t'\<lparr>XThread.status := (if ok then PUBLISHED else FAILED)\<rparr> =
      t\<lparr>XThread.posts := XThread.posts t', XThread.status := (if ok then PUBLISHED else FAILED)\<rparr>"
    by metis
  with run o(1) have "publish_thread_job pub tid (s, calls) =
      (Inr (),
       s\<lparr>threads := (threads s)(tid \<mapsto>
            t\<lparr>XThread.posts := XThread.posts t', XThread.status := (if ok then PUBLISHED else FAILED)\<rparr>)\<rparr>,
       calls @ reqs)"
    by (simp add: publish_thread_job_eq [OF reg])
  with o(3) show ?thesis by blast
qed

lemma example_publisher_ids: "\<forall>cs r x. example_publisher rejected cs r = Inr (Tweet x) \<longrightarrow> truthy x"
  by (simp add: example_publisher_def truthy_def)

lemma example_members_in_order:
  "map XPost.content (members_in_order (example_thread\<lparr>XThread.status := st\<rparr>)) =
     [''first'', ''second'', ''third'']"
  using example_order
  by (simp add: members_in_order_def) (simp add: example_thread_def example_member_def)

lemma example_log_all_succeed:
  "snd (snd (publish_thread_job (example_publisher []) ''t'' (example_service, []))) =
     [\<lparr>tweet_text = ''first'', media = None, in_reply_to_tweet_id = None\<rparr>,
      \<lparr>tweet_text = ''second'', media = None, in_reply_to_tweet_id = Some ''x_first''\<rparr>,
      \<lparr>tweet_text = ''third'', media = None, in_reply_to_tweet_id = Some ''x_second''\<rparr>]"
proof -
  have t: "threads example_service ''t'' = Some (example_thread\<lparr>XThread.status := SCHEDULED\<rparr>)"
    by (simp add: example_service_eq)
  have o: "sorted_members (XThread.posts (example_thread\<lparr>XThread.status := SCHEDULED\<rparr>)) = [1, 2, 0]"
    using example_order by simp
  show ?thesis
    by (simp add: publish_thread_job_eq [OF t] publish_thread_def example_order publish_post_def Let_def truthy_def)
       (simp add: example_thread_def example_member_def example_publisher_def truthy_def)
qed

lemma example_log_second_fails:
  "snd (snd (publish_thread_job (example_publisher [''second'']) ''t'' (example_service, []))) =
     [\<lparr>tweet_text = ''first'', media = None, in_reply_to_tweet_id = None\<rparr>,
      \<lparr>tweet_text = ''second'', media = None, in_reply_to_tweet_id = Some ''x_first''\<rparr>]"
proof -
  have t: "threads example_service ''t'' = Some (example_thread\<lparr>XThread.status := SCHEDULED\<rparr>)"
    by (simp add: example_service_eq)
  have o: "sorted_members (XThread.posts (example_thread\<lparr>XThread.status := SCHEDULED\<rparr>)) = [1, 2, 0]"
    using example_order by simp
  show ?thesis
    by (simp add: publish_thread_job_eq [OF t] publish_thread_def example_order publish_post_def Let_def truthy_def)
       (simp add: example_thread_def example_member_def example_publisher_def truthy_def)
qed

text \<open>
  C4. Firing a registered, non-empty thread, with a publisher whose identifiers are never
  empty (as those of the remote service are), sends at least one unit and at most one per
  member, and the units sent are, in this order, an initial segment of the members sorted by
  position: \<open>members_in_order\<close> is the stable sort of the member list by the position (an
  absent position counts as 0), it is ascending, it is a permutation of the members, and
  it is the same for every reordering of the input list when the positions are distinct.
  The thread ends \<open>PUBLISHED\<close> or \<open>FAILED\<close>, and \<open>PUBLISHED\<close> if and only if one unit was
  sent for every member and every unit sent was answered with an identifier.
\<close>

theorem thread_published_in_position_order:
  assumes reg: "threads s tid = Some t"
    and ne: "XThread.posts t \<noteq> []"
    and ids: "\<forall>cs r x. pub cs r = Inr (Tweet x) \<longrightarrow> truthy x"
  shows "\<exists>t' reqs.
           snd (publish_thread_job pub tid (s, calls)) =
             (s\<lparr>threads := (threads s)(tid \<mapsto> t')\<rparr>, calls @ reqs) \<and>
           reqs \<noteq> [] \<and> length reqs \<le> length (XThread.posts t) \<and>
           map tweet_text reqs = take (length reqs) (map XPost.content (members_in_order t)) \<and>
           map media reqs = take (length reqs) (map media_urls (members_in_order t)) \<and>
           members_in_order t = sort_key position_key (XThread.posts t) \<and>
           sorted (map position_key (members_in_order t)) \<and>
           mset (members_in_order t) = mset (XThread.posts t) \<and>
           (\<forall>ps. mset ps = mset (XThread.posts t) \<and> distinct (map position_key ps) \<longrightarrow>
                 members_in_order (t\<lparr>XThread.posts := ps\<rparr>) = members_in_order t) \<and>
           (XThread.status t' = PUBLISHED \<or> XThread.status t' = FAILED) \<and>
           ((XThread.status t' = PUBLISHED) =
              (length reqs = length (XThread.posts t) \<and>
               (\<forall>j<length reqs. succeeded (pub (calls @ take j reqs) (reqs ! j)))))"
proof -
  let ?ps = "XThread.posts t"
  let ?order = "sorted_members ?ps"
  from thread_job_outcome [OF reg ne ids, of calls] obtain ok ps' reqs m where
    job: "publish_thread_job pub tid (s, calls) =
             (Inr (),
              s\<lparr>threads := (threads s)(tid \<mapsto>
                   t\<lparr>XThread.posts := ps', XThread.status := (if ok then PUBLISHED else FAILED)\<rparr>)\<rparr>,
              calls @ reqs)"
    and out: "thread_outcome pub ?ps ?order calls ok ps' reqs m"
    by blast
  let ?t' = "t\<lparr>XThread.posts := ps', XThread.status := (if ok then PUBLISHED else FAILED)\<rparr>"
  have lo: "length ?order = length ?ps" by (rule sorted_members_props(1))
  from ne lo have pos: "0 < length ?order" by simp
  from out have m: "m \<le> length ?order" and lr: "length reqs = (if ok then m else Suc m)"
    and okm: "ok \<longrightarrow> m = length ?order"
    and nok: "\<not> ok \<longrightarrow> m < length ?order \<and> \<not> succeeded (pub (calls @ take m reqs) (reqs ! m))"
    and pubd: "\<forall>j<m. \<exists>x. pub (calls @ take j reqs) (reqs ! j) = Inr (Tweet x) \<and>
                 ps' ! (?order ! j) = (?ps ! (?order ! j))\<lparr>x_post_id := Some x, XPost.status := PUBLISHED\<rparr>"
    and txs: "\<forall>j<length reqs. tweet_text (reqs ! j) = XPost.content (?ps ! (?order ! j)) \<and>
                        media (reqs ! j) = media_urls (?ps ! (?order ! j))"
    by (simp_all add: thread_outcome_def)
  have a: "snd (publish_thread_job pub tid (s, calls)) =
             (s\<lparr>threads := (threads s)(tid \<mapsto> ?t')\<rparr>, calls @ reqs)"
    by (simp add: job)
  have b: "reqs \<noteq> []"
    using lr okm pos by (cases ok) auto
  have c: "length reqs \<le> length ?ps"
    using lr okm nok lo by (cases ok) auto
  have d1: "map tweet_text reqs = take (length reqs) (map XPost.content (members_in_order t))"
    using c lo txs by (intro nth_equalityI) (simp_all add: members_in_order_def)
  have d2: "map media reqs = take (length reqs) (map media_urls (members_in_order t))"
    using c lo txs by (intro nth_equalityI) (simp_all add: members_in_order_def)
  have e: "sorted (map position_key (members_in_order t))"
    "mset (members_in_order t) = mset ?ps"
    by (simp_all add: members_in_order_sorted)
  have f: "\<forall>ps. mset ps = mset ?ps \<and> distinct (map position_key ps) \<longrightarrow>
                 members_in_order (t\<lparr>XThread.posts := ps\<rparr>) = members_in_order t"
    by (simp add: members_in_order_permuted)
  have g: "XThread.status ?t' = PUBLISHED \<or> XThread.status ?t' = FAILED"
    by simp
  have h: "(XThread.status ?t' = PUBLISHED) =
              (length reqs = length ?ps \<and>
               (\<forall>j<length reqs. succeeded (pub (calls @ take j reqs) (reqs ! j))))"
  proof (cases ok)
    case True
    with okm lr lo have "length reqs = length ?ps" "length reqs = m" by simp_all
    moreover have "\<forall>j<m. succeeded (pub (calls @ take j reqs) (reqs ! j))"
      using pubd by (auto simp: succeeded_iff)
    ultimately show ?thesis using True by simp
  next
    case False
    with nok lr have "m < length reqs" "\<not> succeeded (pub (calls @ take m reqs) (reqs ! m))"
      by simp_all
    then have "\<not> (\<forall>j<length reqs. succeeded (pub (calls @ take j reqs) (reqs ! j)))"
      by blast
    with False show ?thesis by simp
  qed
  from a b c d1 d2 members_in_order_sorted [of t] e f g h show ?thesis by blast
qed

theorem thread_published_in_position_order_witness:
  "threads example_service ''t'' = Some (example_thread\<lparr>XThread.status := SCHEDULED\<rparr>) \<and>
   map thread_position (XThread.posts (example_thread\<lparr>XThread.status := SCHEDULED\<rparr>)) =
     [Some 3, Some 1, Some 2] \<and>
   map tweet_text (snd (snd (publish_thread_job (example_publisher []) ''t'' (example_service, [])))) =
     [''first'', ''second'', ''third''] \<and>
   map_option XThread.status
     (threads (fst (snd (publish_thread_job (example_publisher []) ''t'' (example_service, [])))) ''t'') =
     Some PUBLISHED \<and>
   map tweet_text
     (snd (snd (publish_thread_job (example_publisher [''second'']) ''t'' (example_service, [])))) =
     [''first'', ''second''] \<and>
   map_option XThread.status
     (threads (fst (snd (publish_thread_job (example_publisher [''second'']) ''t'' (example_service, [])))) ''t'') =
     Some FAILED"
proof -
  let ?t = "example_thread\<lparr>XThread.status := SCHEDULED\<rparr>"
  have reg: "threads example_service ''t'' = Some ?t"
    by (simp add: example_service_eq)
  have ne: "XThread.posts ?t \<noteq> []"
    by (simp add: example_thread_def)
  have pos: "map thread_position (XThread.posts ?t) = [Some 3, Some 1, Some 2]"
    by (simp add: example_thread_def example_member_def)
  have n: "length (XThread.posts ?t) = 3"
    by (simp add: example_thread_def)
  from thread_published_in_position_order [OF reg ne example_publisher_ids, of "[]" "[]"]
  obtain t' reqs where A:
    "snd (publish_thread_job (example_publisher []) ''t'' (example_service, [])) =
       (example_service\<lparr>threads := (threads example_service)(''t'' \<mapsto> t')\<rparr>, [] @ reqs)"
    "map tweet_text reqs = take (length reqs) (map XPost.content (members_in_order ?t))"
    "(XThread.status t' = PUBLISHED) =
       (length reqs = length (XThread.posts ?t) \<and>
        (\<forall>j<length reqs. succeeded (example_publisher [] ([] @ take j reqs) (reqs ! j))))"
    by blast
  from A(1) have lenA: "length reqs = 3"
    using example_log_all_succeed by simp
  have "succeeded (example_publisher [] cs r)" for cs r
    by (simp add: example_publisher_def succeeded_def)
  with A(3) lenA n have "XThread.status t' = PUBLISHED" by simp
  with A(1) have a1: "map_option XThread.status
     (threads (fst (snd (publish_thread_job (example_publisher []) ''t'' (example_service, [])))) ''t'') =
     Some PUBLISHED"
    by simp
  from A(1,2) lenA have a2:
    "map tweet_text (snd (snd (publish_thread_job (example_publisher []) ''t'' (example_service, [])))) =
     [''first'', ''second'', ''third'']"
    by (simp add: example_members_in_order)
  from thread_published_in_position_order [OF reg ne example_publisher_ids, of "[''second'']" "[]"]
  obtain u' reqs' where B:
    "snd (publish_thread_job (example_publisher [''second'']) ''t'' (example_service, [])) =
       (example_service\<lparr>threads := (threads example_service)(''t'' \<mapsto> u')\<rparr>, [] @ reqs')"
    "map tweet_text reqs' = take (length reqs') (map XPost.content (members_in_order ?t))"
    "XThread.status u' = PUBLISHED \<or> XThread.status u' = FAILED"
    "(XThread.status u' = PUBLISHED) =
       (length reqs' = length (XThread.posts ?t) \<and>
        (\<forall>j<length reqs'. succeeded (example_publisher [''second''] ([] @ take j reqs') (reqs' ! j))))"
    by blast
  from B(1) have lenB: "length reqs' = 2"
    using example_log_second_fails by simp
  with B(3,4) n have "XThread.status u' = FAILED" by simp
  with B(1) have b1: "map_option XThread.status
     (threads (fst (snd (publish_thread_job (example_publisher [''second'']) ''t'' (example_service, [])))) ''t'') =
     Some FAILED"
    by simp
  from B(1,2) lenB have b2:
    "map tweet_text
     (snd (snd (publish_thread_job (example_publisher [''second'']) ''t'' (example_service, [])))) =
     [''first'', ''second'']"
    by (simp add: example_members_in_order)
  from reg pos a1 a2 b1 b2 show ?thesis by simp
qed

text \<open>
  C5. Under the same conditions, if the unit number \<open>k\<close> of the firing (counted from 0,
  in the order of the positions) is not answered with an identifier, then the thread ends
  \<open>FAILED\<close>; that unit is the last one sent (it is not sent again and no later member is
  sent); every member before it was answered with an identifier and has the status
  \<open>PUBLISHED\<close> with that identifier recorded; and the failing member and every member
  after it are as they were.
\<close>

theorem first_failure_aborts_thread:
  assumes reg: "threads s tid = Some t"
    and ne: "XThread.posts t \<noteq> []"
    and ids: "\<forall>cs r x. pub cs r = Inr (Tweet x) \<longrightarrow> truthy x"
  shows "\<exists>t' reqs.
           snd (publish_thread_job pub tid (s, calls)) =
             (s\<lparr>threads := (threads s)(tid \<mapsto> t')\<rparr>, calls @ reqs) \<and>
           length (XThread.posts t') = length (XThread.posts t) \<and>
           (\<forall>k<length reqs. \<not> succeeded (pub (calls @ take k reqs) (reqs ! k)) \<longrightarrow>
              XThread.status t' = FAILED \<and>
              length reqs = Suc k \<and> k < length (XThread.posts t) \<and>
              (\<forall>j<k. \<exists>x. pub (calls @ take j reqs) (reqs ! j) = Inr (Tweet x) \<and>
                     XThread.posts t' ! (sorted_members (XThread.posts t) ! j) =
                       (XThread.posts t ! (sorted_members (XThread.posts t) ! j))
                         \<lparr>x_post_id := Some x, XPost.status := PUBLISHED\<rparr>) \<and>
              (\<forall>j. k \<le> j \<and> j < length (XThread.posts t) \<longrightarrow>
                     XThread.posts t' ! (sorted_members (XThread.posts t) ! j) =
                       XThread.posts t ! (sorted_members (XThread.posts t) ! j)))"
proof -
  let ?ps = "XThread.posts t"
  let ?order = "sorted_members ?ps"
  from thread_job_outcome [OF reg ne ids, of calls] obtain ok ps' reqs m where
    job: "publish_thread_job pub tid (s, calls) =
             (Inr (),
              s\<lparr>threads := (threads s)(tid \<mapsto>
                   t\<lparr>XThread.posts := ps', XThread.status := (if ok then PUBLISHED else FAILED)\<rparr>)\<rparr>,
              calls @ reqs)"
    and out: "thread_outcome pub ?ps ?order calls ok ps' reqs m"
    by blast
  let ?t' = "t\<lparr>XThread.posts := ps', XThread.status := (if ok then PUBLISHED else FAILED)\<rparr>"
  have lo: "length ?order = length ?ps" and dist: "distinct ?order"
    and so: "set ?order = {0..<length ?ps}"
    by (rule sorted_members_props)+
  from out have len: "length ps' = length ?ps"
    and m: "m \<le> length ?order" and lr: "length reqs = (if ok then m else Suc m)"
    and nok: "\<not> ok \<longrightarrow> m < length ?order"
    and pubd: "\<forall>j<m. \<exists>x. pub (calls @ take j reqs) (reqs ! j) = Inr (Tweet x) \<and>
                 ps' ! (?order ! j) = (?ps ! (?order ! j))\<lparr>x_post_id := Some x, XPost.status := PUBLISHED\<rparr>"
    and same: "\<forall>i<length ?ps. i \<notin> set (take m ?order) \<longrightarrow> ps' ! i = ?ps ! i"
    by (simp_all add: thread_outcome_def)
  have a: "snd (publish_thread_job pub tid (s, calls)) =
             (s\<lparr>threads := (threads s)(tid \<mapsto> ?t')\<rparr>, calls @ reqs)"
    by (simp add: job)
  have b: "length (XThread.posts ?t') = length ?ps"
    using len by simp
  have c: "XThread.status ?t' = FAILED \<and>
              length reqs = Suc k \<and> k < length ?ps \<and>
              (\<forall>j<k. \<exists>x. pub (calls @ take j reqs) (reqs ! j) = Inr (Tweet x) \<and>
                     XThread.posts ?t' ! (?order ! j) =
                       (?ps ! (?order ! j))\<lparr>x_post_id := Some x, XPost.status := PUBLISHED\<rparr>) \<and>
              (\<forall>j. k \<le> j \<and> j < length ?ps \<longrightarrow>
                     XThread.posts ?t' ! (?order ! j) = ?ps ! (?order ! j))"
    if k: "k < length reqs" and fails: "\<not> succeeded (pub (calls @ take k reqs) (reqs ! k))" for k
  proof -
    have km: "\<not> k < m"
    proof
      assume "k < m"
      with pubd obtain x where "pub (calls @ take k reqs) (reqs ! k) = Inr (Tweet x)" by blast
      with fails show False by (simp add: succeeded_iff)
    qed
    have notok: "\<not> ok"
    proof
      assume ok
      with lr k have "k < m" by simp
      with km show False ..
    qed
    with lr k km have keq: "k = m" by simp
    from notok nok lo keq have kl: "k < length ?ps" by simp
    have rest: "ps' ! (?order ! j) = ?ps ! (?order ! j)" if "k \<le> j" "j < length ?ps" for j
    proof -
      from that lo have jl: "j < length ?order" by simp
      with dist that(1) keq have "?order ! j \<notin> set (take m ?order)"
        by (simp add: nth_not_in_take)
      moreover from jl so have "?order ! j < length ?ps"
        using nth_mem [OF jl] by auto
      ultimately show ?thesis using same by blast
    qed
    from notok lr keq kl pubd rest show ?thesis by simp
  qed
  from a b c show ?thesis by blast
qed

theorem first_failure_aborts_thread_witness:
  "threads example_service ''t'' = Some (example_thread\<lparr>XThread.status := SCHEDULED\<rparr>) \<and>
   length (snd (snd (publish_thread_job (example_publisher [''second'']) ''t'' (example_service, [])))) = 2 \<and>
   map_option XThread.status
     (threads (fst (snd (publish_thread_job (example_publisher [''second'']) ''t'' (example_service, [])))) ''t'') =
     Some FAILED \<and>
   map_option (\<lambda>t. XThread.posts t ! 1)
     (threads (fst (snd (publish_thread_job (example_publisher [''second'']) ''t'' (example_service, [])))) ''t'') =
     Some ((example_member ''first'' 1)\<lparr>x_post_id := Some ''x_first'', XPost.status := PUBLISHED\<rparr>) \<and>
   map_option (\<lambda>t. XThread.posts t ! 2)
     (threads (fst (snd (publish_thread_job (example_publisher [''second'']) ''t'' (example_service, [])))) ''t'') =
     Some (example_member ''second'' 2) \<and>
   map_option (\<lambda>t. XThread.posts t ! 0)
     (threads (fst (snd (publish_thread_job (example_publisher [''second'']) ''t'' (example_service, [])))) ''t'') =
     Some (example_member ''third'' 3)"
proof -
  let ?t = "example_thread\<lparr>XThread.status := SCHEDULED\<rparr>"
  let ?pub = "example_publisher [''second'']"
  let ?o = "sorted_members (XThread.posts ?t)"
  have reg: "threads example_service ''t'' = Some ?t"
    by (simp add: example_service_eq)
  have ne: "XThread.posts ?t \<noteq> []"
    by (simp add: example_thread_def)
  have o: "?o = [1, 2, 0]"
    using example_order by simp
  have ps: "XThread.posts ?t =
      [example_member ''third'' 3, example_member ''first'' 1, example_member ''second'' 2]"
    by (simp add: example_thread_def)
  have o2: "sorted_members
      [example_member ''third'' 3, example_member ''first'' 1, example_member ''second'' 2] = [1, 2, 0]"
    using example_order by (simp add: example_thread_def)
  from first_failure_aborts_thread [OF reg ne example_publisher_ids, of "[''second'']" "[]"]
  obtain t' reqs where A:
    "snd (publish_thread_job ?pub ''t'' (example_service, [])) =
       (example_service\<lparr>threads := (threads example_service)(''t'' \<mapsto> t')\<rparr>, [] @ reqs)"
    "\<forall>k<length reqs. \<not> succeeded (?pub ([] @ take k reqs) (reqs ! k)) \<longrightarrow>
        XThread.status t' = FAILED \<and>
        length reqs = Suc k \<and> k < length (XThread.posts ?t) \<and>
        (\<forall>j<k. \<exists>x. ?pub ([] @ take j reqs) (reqs ! j) = Inr (Tweet x) \<and>
               XThread.posts t' ! (?o ! j) =
                 (XThread.posts ?t ! (?o ! j))\<lparr>x_post_id := Some x, XPost.status := PUBLISHED\<rparr>) \<and>
        (\<forall>j. k \<le> j \<and> j < length (XThread.posts ?t) \<longrightarrow>
               XThread.posts t' ! (?o ! j) = XThread.posts ?t ! (?o ! j))"
    by blast
  from A(1) have log: "reqs =
     [\<lparr>tweet_text = ''first'', media = None, in_reply_to_tweet_id = None\<rparr>,
      \<lparr>tweet_text = ''second'', media = None, in_reply_to_tweet_id = Some ''x_first''\<rparr>]"
    using example_log_second_fails by simp
  have fails: "\<not> succeeded (?pub ([] @ take 1 reqs) (reqs ! 1))"
    by (simp add: log example_publisher_def succeeded_def)
  have "(1::nat) < length reqs" by (simp add: log)
  with A(2) fails have C:
    "XThread.status t' = FAILED" "length reqs = Suc 1"
    "\<forall>j<1. \<exists>x. ?pub ([] @ take j reqs) (reqs ! j) = Inr (Tweet x) \<and>
               XThread.posts t' ! (?o ! j) =
                 (XThread.posts ?t ! (?o ! j))\<lparr>x_post_id := Some x, XPost.status := PUBLISHED\<rparr>"
    "\<forall>j. 1 \<le> j \<and> j < length (XThread.posts ?t) \<longrightarrow>
               XThread.posts t' ! (?o ! j) = XThread.posts ?t ! (?o ! j)"
    by blast+
  from C(3) obtain x where x: "?pub ([] @ take 0 reqs) (reqs ! 0) = Inr (Tweet x)"
    "XThread.posts t' ! (?o ! 0) =
       (XThread.posts ?t ! (?o ! 0))\<lparr>x_post_id := Some x, XPost.status := PUBLISHED\<rparr>"
    by auto
  from x(1) have "x = ''x_first''"
    by (simp add: log example_publisher_def)
  with x(2) have m1: "XThread.posts t' ! 1 =
      (example_member ''first'' 1)\<lparr>x_post_id := Some ''x_first'', XPost.status := PUBLISHED\<rparr>"
    by (simp add: ps o2)
  from C(4) [rule_format, of 1] have m2: "XThread.posts t' ! 2 = example_member ''second'' 2"
    by (simp add: ps o2)
  from C(4) [rule_format, of 2] have m3: "XThread.posts t' ! 0 = example_member ''third'' 3"
    by (simp add: ps o2)
  from A(1) C(1,2) m1 m2 m3 reg show ?thesis by simp
qed

end
